theory Spec2Isabelle
  imports Complex_Main
begin

section \<open>Numeric values\<close>

text \<open>
  The arrays of \<^verbatim>\<open>dce/process.py\<close> hold IEEE doubles. A value is modelled as a finite
  real or one of the three special values, so that every place where the source tests for
  or produces a NaN or an infinity is a branch of the model. Finite arithmetic is exact:
  rounding, overflow of a finite result and the sign of a zero are outside the model (a
  non-zero value divided by zero yields the infinity of the numerator's sign, as for a
  positive zero). The scalar arithmetic of line 137, where rounding decides how many time
  points enter the baseline, is modelled with its rounding, see below.
\<close>

datatype fl = Fin real | PInf | NInf | NaN

fun fl_isnan :: "fl \<Rightarrow> bool" where
  "fl_isnan NaN = True"
| "fl_isnan _ = False"

fun fl_isinf :: "fl \<Rightarrow> bool" where
  "fl_isinf PInf = True"
| "fl_isinf NInf = True"
| "fl_isinf _ = False"

text \<open>The infinity (or NaN) that a product or quotient with an infinity has, from the
  sign of the finite operand.\<close>

definition inf_of_sign :: "real \<Rightarrow> fl" where
  "inf_of_sign a = (if a = 0 then NaN else if 0 < a then PInf else NInf)"

fun fneg :: "fl \<Rightarrow> fl" where
  "fneg (Fin a) = Fin (- a)"
| "fneg PInf = NInf"
| "fneg NInf = PInf"
| "fneg NaN = NaN"

fun fadd :: "fl \<Rightarrow> fl \<Rightarrow> fl" where
  "fadd NaN _ = NaN"
| "fadd _ NaN = NaN"
| "fadd (Fin a) (Fin b) = Fin (a + b)"
| "fadd PInf NInf = NaN"
| "fadd NInf PInf = NaN"
| "fadd PInf _ = PInf"
| "fadd NInf _ = NInf"
| "fadd _ PInf = PInf"
| "fadd _ NInf = NInf"

definition fsub :: "fl \<Rightarrow> fl \<Rightarrow> fl" where
  "fsub a b = fadd a (fneg b)"

fun fmul :: "fl \<Rightarrow> fl \<Rightarrow> fl" where
  "fmul NaN _ = NaN"
| "fmul _ NaN = NaN"
| "fmul (Fin a) (Fin b) = Fin (a * b)"
| "fmul (Fin a) PInf = inf_of_sign a"
| "fmul (Fin a) NInf = inf_of_sign (- a)"
| "fmul PInf (Fin b) = inf_of_sign b"
| "fmul NInf (Fin b) = inf_of_sign (- b)"
| "fmul PInf PInf = PInf"
| "fmul PInf NInf = NInf"
| "fmul NInf PInf = NInf"
| "fmul NInf NInf = PInf"

fun fdiv :: "fl \<Rightarrow> fl \<Rightarrow> fl" where
  "fdiv NaN _ = NaN"
| "fdiv _ NaN = NaN"
| "fdiv (Fin a) (Fin b) = (if b = 0 then inf_of_sign a else Fin (a / b))"
| "fdiv (Fin a) PInf = Fin 0"
| "fdiv (Fin a) NInf = Fin 0"
| "fdiv PInf (Fin b) = (if 0 \<le> b then PInf else NInf)"
| "fdiv NInf (Fin b) = (if 0 \<le> b then NInf else PInf)"
| "fdiv _ _ = NaN"

text \<open>Comparisons: every comparison with a NaN is false.\<close>

fun flt :: "fl \<Rightarrow> fl \<Rightarrow> bool" where
  "flt NaN _ = False"
| "flt _ NaN = False"
| "flt (Fin a) (Fin b) = (a < b)"
| "flt NInf NInf = False"
| "flt NInf _ = True"
| "flt _ NInf = False"
| "flt PInf _ = False"
| "flt _ PInf = True"

definition fgt :: "fl \<Rightarrow> fl \<Rightarrow> bool" where
  "fgt a b = flt b a"

definition fge :: "fl \<Rightarrow> fl \<Rightarrow> bool" where
  "fge a b = (\<not> fl_isnan a \<and> \<not> fl_isnan b \<and> \<not> flt a b)"

text \<open>A boolean array that enters arithmetic counts as 0 and 1.\<close>

definition b2f :: "bool \<Rightarrow> fl" where
  "b2f b = Fin (if b then 1 else 0)"

text \<open>\<^verbatim>\<open>np.mean\<close> of a one-dimensional slice: the sum over the count; the mean of an empty
  slice is NaN (NumPy warns, it does not raise).\<close>

definition fl_sum :: "fl list \<Rightarrow> fl" where
  "fl_sum xs = foldl fadd (Fin 0) xs"

definition np_mean :: "fl list \<Rightarrow> fl" where
  "np_mean xs = fdiv (fl_sum xs) (Fin (real (length xs)))"

text \<open>\<^verbatim>\<open>np.around\<close>: rounding to the nearest integer, a tie to the even neighbour.\<close>

definition np_around :: "real \<Rightarrow> int" where
  "np_around x =
     (let f = \<lfloor>x\<rfloor>; d = x - of_int f
      in if d < 1 / 2 then f else if 1 / 2 < d then f + 1
         else if even f then f else f + 1)"

subsection \<open>Double precision for the scalar options\<close>

text \<open>
  The options of \<^verbatim>\<open>run\<close> are Python floats, and line 137 computes with them in IEEE
  double precision. A double is modelled as the real it denotes; \<open>round53\<close> rounds a real
  to the nearest real with a significand of 53 bits, a tie to the even significand, as
  each arithmetic operation on doubles does. \<open>expo x\<close> is the exponent of the binade of a
  positive \<open>x\<close> (\<open>2 ^ expo x \<le> x < 2 ^ (expo x + 1)\<close>). A result whose magnitude is above
  \<open>dbl_max\<close> is an infinity in the program. (Subnormal numbers are rounded like normal
  ones; the sum \<open>1 + q\<close> of line 137 is the same for both. The unit conversions of
  \<^verbatim>\<open>_run_pk\<close>, whose results go to the engine alone, are left exact.)
\<close>

fun bitlen_nat :: "nat \<Rightarrow> nat" where
  "bitlen_nat n = (if n = 0 then 0 else Suc (bitlen_nat (n div 2)))"

declare bitlen_nat.simps [simp del]

definition expo :: "real \<Rightarrow> int" where
  "expo x =
     (if 1 \<le> x then int (bitlen_nat (nat \<lfloor>x\<rfloor>)) - 1
      else - int (bitlen_nat (nat \<lceil>1 / x\<rceil> - 1)))"

definition pow2 :: "int \<Rightarrow> real" where
  "pow2 e = (if 0 \<le> e then 2 ^ nat e else 1 / 2 ^ nat (- e))"

definition round53 :: "real \<Rightarrow> real" where
  "round53 x =
     (if x = 0 then 0
      else let q = pow2 (expo \<bar>x\<bar> - 52)
           in sgn x * real_of_int (np_around (\<bar>x\<bar> / q)) * q)"

definition dbl_max :: real where
  "dbl_max = (2 - 1 / 2 ^ 52) * 2 ^ 1023"

section \<open>Exceptions\<close>

text \<open>Every \<^verbatim>\<open>raise\<close> of the source, and every exception of Python, NumPy or the fitting
  engine, is a value; a computation that may raise returns \<open>exn + 'a\<close>.\<close>

datatype exn =
    QpException string
  | KeyError string
  | ZeroDivisionError
  | OverflowError
  | ValueError
  | IndexError
  | Raised string

definition bind_exn :: "exn + 'a \<Rightarrow> ('a \<Rightarrow> exn + 'b) \<Rightarrow> exn + 'b" where
  "bind_exn m f = (case m of Inl e \<Rightarrow> Inl e | Inr x \<Rightarrow> f x)"

section \<open>Result reconstruction: the clamps of \<^verbatim>\<open>finished\<close>\<close>

text \<open>Line 183 and line 186: \<^verbatim>\<open>x * (x < 2.0) + 2 * (x > 2.0)\<close>.\<close>

definition clamp_gt :: "fl \<Rightarrow> fl" where
  "clamp_gt x = fadd (fmul x (b2f (flt x (Fin 2)))) (fmul (Fin 2) (b2f (fgt x (Fin 2))))"

text \<open>Line 187 and line 191: \<^verbatim>\<open>x *= (x > 0)\<close>.\<close>

definition zero_neg :: "fl \<Rightarrow> fl" where
  "zero_neg x = fmul x (b2f (fgt x (Fin 0)))"

text \<open>Line 190: \<^verbatim>\<open>kep1p[np.logical_or(np.isnan(kep1p), np.isinf(kep1p))] = 0\<close>.\<close>

definition nan_inf_to_zero :: "fl \<Rightarrow> fl" where
  "nan_inf_to_zero x = (if fl_isnan x \<or> fl_isinf x then Fin 0 else x)"

text \<open>Line 192: \<^verbatim>\<open>kep1p * (kep1p < 2.0) + 2 * (kep1p >= 2.0)\<close>.\<close>

definition clamp_ge :: "fl \<Rightarrow> fl" where
  "clamp_ge x = fadd (fmul x (b2f (flt x (Fin 2)))) (fmul (Fin 2) (b2f (fge x (Fin 2))))"

text \<open>Lines 189 to 192 at one voxel, from the reconstructed Ktrans and ve values.\<close>

definition kep_of :: "fl \<Rightarrow> fl \<Rightarrow> fl" where
  "kep_of k v = clamp_ge (zero_neg (nan_inf_to_zero (fdiv k (fadd v (Fin 0.001)))))"

section \<open>Arrays\<close>

text \<open>An n-dimensional array is its shape and its elements in row-major order.\<close>

record ndarray =
  shape :: "nat list"
  elems :: "fl list"

text \<open>\<^verbatim>\<open>np.reshape\<close> raises unless the new shape has as many elements as the array.\<close>

definition np_reshape :: "nat list \<Rightarrow> fl list \<Rightarrow> exn + ndarray" where
  "np_reshape shp xs =
     (if prod_list shp = length xs then Inr \<lparr>shape = shp, elems = xs\<rparr> else Inl ValueError)"

definition count_true :: "bool list \<Rightarrow> nat" where
  "count_true m = length (filter (\<lambda>b. b) m)"

text \<open>\<^verbatim>\<open>a = np.zeros(...); a[mask] = vals\<close>: the values go to the True positions of the
  mask in order, every other position keeps the zero \<open>z\<close>. NumPy raises ValueError unless
  there are as many values as True positions.\<close>

fun scatter :: "bool list \<Rightarrow> 'a list \<Rightarrow> 'a \<Rightarrow> 'a list" where
  "scatter [] vs z = []"
| "scatter (True # ms) (v # vs) z = v # scatter ms vs z"
| "scatter (True # ms) [] z = z # scatter ms [] z"
| "scatter (False # ms) vs z = z # scatter ms vs z"

definition mask_assign :: "bool list \<Rightarrow> 'a list \<Rightarrow> 'a \<Rightarrow> exn + 'a list" where
  "mask_assign m vals z =
     (if length vals = count_true m then Inr (scatter m vals z) else Inl ValueError)"

text \<open>\<^verbatim>\<open>a[mask]\<close>: the rows at the True positions of the mask; NumPy raises IndexError
  unless the mask is as long as the array.\<close>

definition mask_select :: "bool list \<Rightarrow> 'a list \<Rightarrow> exn + 'a list" where
  "mask_select m xs =
     (if length m = length xs
      then Inr (map snd (filter fst (zip m xs))) else Inl IndexError)"

subsection \<open>\<^verbatim>\<open>np.percentile\<close>\<close>

text \<open>
  The percentile of NumPy with its default linear interpolation, over the flattened array:
  the sorted values \<open>s\<close>, the fractional index \<open>q / 100 * (n - 1)\<close>, and the two
  neighbouring ranks weighted by the fraction. A \<open>q\<close> outside \<open>[0, 100]\<close> raises
  ValueError; an array that holds a NaN (or no element) has the percentile NaN.
\<close>

fun fl_insort :: "fl \<Rightarrow> fl list \<Rightarrow> fl list" where
  "fl_insort x [] = [x]"
| "fl_insort x (y # ys) = (if flt y x then y # fl_insort x ys else x # y # ys)"

definition fl_sort :: "fl list \<Rightarrow> fl list" where
  "fl_sort xs = foldr fl_insort xs []"

definition np_percentile :: "fl list \<Rightarrow> real \<Rightarrow> exn + fl" where
  "np_percentile xs q =
     (if q < 0 \<or> 100 < q then Inl ValueError
      else if xs = [] \<or> list_ex fl_isnan xs then Inr NaN
      else
        let s = fl_sort xs;
            n = length s;
            idx = q / 100 * real (n - 1);
            lo = nat \<lfloor>idx\<rfloor>;
            hi = min (lo + 1) (n - 1);
            w = idx - real lo
        in Inr (fadd (fmul (s ! lo) (Fin (1 - w))) (fmul (s ! hi) (Fin w))))"

text \<open>Lines 219 and 221: \<^verbatim>\<open>vol[vol > p] = p\<close>.\<close>

definition threshold_above :: "fl \<Rightarrow> fl list \<Rightarrow> fl list" where
  "threshold_above p xs = map (\<lambda>x. if fgt x p then p else x) xs"

section \<open>The process and the data store\<close>

text \<open>The value a worker returns on success (line 82): residual, fitted curves, one row
  of four parameters (Ktrans, ve, offset, vp) per voxel as the engine's
  \<^verbatim>\<open>get_parameters\<close> delivers them, and the log.\<close>

record fit_output =
  res1 :: "fl list"
  fcurve1 :: "fl list list"
  params2 :: "(fl \<times> fl \<times> fl \<times> fl) list"
  fit_log :: string

text \<open>The status of a process is kept by the base class \<^verbatim>\<open>Process\<close> of the host
  application; \<^verbatim>\<open>finished\<close> only asks whether it is \<^verbatim>\<open>Process.SUCCEEDED\<close>.\<close>

datatype status = NOTSTARTED | RUNNING | FAILED | SUCCEEDED | CANCELLED

text \<open>The fields of \<^verbatim>\<open>PkModellingProcess\<close> (lines 92 to 96), with the log, the status
  and the worker output that its base class keeps. The two fields that are \<^verbatim>\<open>None\<close>
  before the first \<^verbatim>\<open>run\<close> are empty lists here.\<close>

record process =
  p_suffix :: string
  p_thresh1val :: real
  p_roi1vec :: "bool list"
  p_baseline :: "fl list"
  p_shape :: "nat list"
  p_log :: string
  p_status :: status
  p_output :: "fit_output list"

text \<open>One call of the data store's \<^verbatim>\<open>add_data\<close>: \<open>make_current\<close> is \<open>None\<close> where the
  caller does not pass it.\<close>

record add_call =
  ac_data :: ndarray
  ac_name :: string
  ac_make_current :: "bool option"

record ivm =
  main :: "ndarray option"
  current_roi :: "ndarray option"
  rois :: "string \<rightharpoonup> ndarray"
  data :: "string \<rightharpoonup> ndarray"
  added :: "add_call list"

definition add_data :: "ivm \<Rightarrow> ndarray \<Rightarrow> string \<Rightarrow> bool option \<Rightarrow> ivm" where
  "add_data s vol nm mc =
     s\<lparr>added := added s @ [\<lparr>ac_data = vol, ac_name = nm, ac_make_current = mc\<rparr>]\<rparr>"

section \<open>\<^verbatim>\<open>PkModellingProcess.finished\<close>\<close>

text \<open>Line 201: \<^verbatim>\<open>(var1[1] + 1) * np.tile(np.expand_dims(baseline, -1), (1, T))\<close>, for a
  curve matrix of one row of \<open>T\<close> values per baseline entry; every other shape is a
  ValueError here (NumPy would still broadcast an axis of length one).\<close>

definition curve_signal :: "fl list list \<Rightarrow> fl list \<Rightarrow> nat \<Rightarrow> exn + fl list list" where
  "curve_signal fc bl T =
     (if length fc = length bl \<and> list_all (\<lambda>r. length r = T) fc
      then Inr (map (\<lambda>(r, b). map (\<lambda>x. fmul (fadd x (Fin 1)) b) r) (zip fc bl))
      else Inl ValueError)"

text \<open>The flat arrays of lines 182 to 207, before they are reshaped.\<close>

record recon =
  Ktrans1 :: "fl list"
  ve1 :: "fl list"
  kep1 :: "fl list"
  offset1 :: "fl list"
  vp1 :: "fl list"
  estimated_curve1 :: "fl list list"
  residual1 :: "fl list"

definition reconstruct :: "process \<Rightarrow> fit_output \<Rightarrow> exn + recon" where
  "reconstruct self var1 =
     (let roi1v = p_roi1vec self in
      bind_exn (mask_assign roi1v (map (\<lambda>(k, v, off, p). clamp_gt k) (params2 var1)) (Fin 0))
        (\<lambda>Ktrans1.
      bind_exn (mask_assign roi1v (map (\<lambda>(k, v, off, p). clamp_gt v) (params2 var1)) (Fin 0))
        (\<lambda>ve1a.
      let ve1 = map zero_neg ve1a;
          kep1 = map (\<lambda>(k, v). kep_of k v) (zip Ktrans1 ve1) in
      bind_exn (mask_assign roi1v (map (\<lambda>(k, v, off, p). off) (params2 var1)) (Fin 0))
        (\<lambda>offset1.
      bind_exn (mask_assign roi1v (map (\<lambda>(k, v, off, p). p) (params2 var1)) (Fin 0))
        (\<lambda>vp1.
      bind_exn (if p_shape self = [] then Inl IndexError else Inr (last (p_shape self)))
        (\<lambda>T.
      bind_exn (curve_signal (fcurve1 var1) (p_baseline self) T)
        (\<lambda>sig.
      bind_exn (mask_assign roi1v sig (replicate T (Fin 0)))
        (\<lambda>estimated_curve1.
      bind_exn (mask_assign roi1v (res1 var1) (Fin 0))
        (\<lambda>residual1.
      Inr \<lparr>Ktrans1 = Ktrans1, ve1 = ve1, kep1 = kep1, offset1 = offset1, vp1 = vp1,
           estimated_curve1 = estimated_curve1, residual1 = residual1\<rparr>)))))))))"

text \<open>Lines 210 to 221: the reshaped volumes, Ktrans and kep thresholded at their own
  percentile.\<close>

record volumes =
  Ktrans1vol :: ndarray
  ve1vol :: ndarray
  kep1vol :: ndarray
  offset1vol :: ndarray
  vp1vol :: ndarray
  estimated1vol :: ndarray

definition to_volumes :: "process \<Rightarrow> recon \<Rightarrow> exn + volumes" where
  "to_volumes self r =
     (let shp3 = butlast (p_shape self) in
      bind_exn (np_reshape shp3 (Ktrans1 r)) (\<lambda>kt.
      bind_exn (np_reshape shp3 (ve1 r)) (\<lambda>ve.
      bind_exn (np_reshape shp3 (offset1 r)) (\<lambda>off.
      bind_exn (np_reshape shp3 (vp1 r)) (\<lambda>vp.
      bind_exn (np_reshape shp3 (kep1 r)) (\<lambda>kep.
      bind_exn (np_reshape (p_shape self) (concat (estimated_curve1 r))) (\<lambda>est.
      bind_exn (np_percentile (elems kt) (p_thresh1val self)) (\<lambda>p.
      let kt' = kt\<lparr>elems := threshold_above p (elems kt)\<rparr> in
      bind_exn (np_percentile (elems kep) (p_thresh1val self)) (\<lambda>p2.
      let kep' = kep\<lparr>elems := threshold_above p2 (elems kep)\<rparr> in
      Inr \<lparr>Ktrans1vol = kt', ve1vol = ve, kep1vol = kep', offset1vol = off, vp1vol = vp,
           estimated1vol = est\<rparr>)))))))))"

text \<open>Lines 223 to 228.\<close>

definition publish :: "process \<Rightarrow> volumes \<Rightarrow> ivm \<Rightarrow> ivm" where
  "publish self v s0 =
     (let s1 = add_data s0 (Ktrans1vol v) (''ktrans'' @ p_suffix self) (Some True);
          s2 = add_data s1 (ve1vol v) (''ve'' @ p_suffix self) None;
          s3 = add_data s2 (kep1vol v) (''kep'' @ p_suffix self) None;
          s4 = add_data s3 (offset1vol v) (''offset'' @ p_suffix self) None;
          s5 = add_data s4 (vp1vol v) (''vp'' @ p_suffix self) None
      in add_data s5 (estimated1vol v) (''model_curves'' @ p_suffix self) None)"

definition finished :: "process \<Rightarrow> ivm \<Rightarrow> exn + (process \<times> ivm)" where
  "finished self s =
     (if p_status self = SUCCEEDED then
        (case p_output self of
           [] \<Rightarrow> Inl IndexError
         | var1 # _ \<Rightarrow>
             let self' = self\<lparr>p_log := p_log self @ fit_log var1\<rparr> in
             bind_exn (reconstruct self' var1) (\<lambda>r.
             bind_exn (to_volumes self' r) (\<lambda>v.
             Inr (self', publish self' v s))))
      else Inr (self, s))"

section \<open>The worker function \<^verbatim>\<open>_run_pk\<close>\<close>

text \<open>A two-dimensional array of \<open>ncols\<close> columns: the shape \<open>(length rows, ncols)\<close>
  stays known when there is no row.\<close>

record arr2 =
  ncols :: nat
  rows :: "fl list list"

text \<open>The arguments that \<^verbatim>\<open>run\<close> hands to \<^verbatim>\<open>start\<close> (line 160), in the order of the
  parameters of \<^verbatim>\<open>_run_pk\<close> after the worker id and the queue.\<close>

record pk_args =
  img1sub :: arr2
  t101sub :: "fl list"
  r1 :: real
  r2 :: real
  delt :: real
  injt :: real
  tr1 :: real
  te1 :: real
  dce_flip_angle :: real
  dose :: real
  model_choice :: int

text \<open>
  The fitting engine \<^verbatim>\<open>PyPk\<close> is imported from the compiled module \<^verbatim>\<open>pk_model\<close>, whose
  code is not among the sources; it is a parameter of the model. Each of its operations
  takes the engine's state and returns the new state, or raises.
\<close>

record 'e engine =
  eng_new :: "fl list \<Rightarrow> arr2 \<Rightarrow> fl list \<Rightarrow> exn + 'e"
  eng_set_bounds :: "'e \<Rightarrow> real list \<Rightarrow> real list \<Rightarrow> exn + 'e"
  eng_set_parameters :: "'e \<Rightarrow> real \<Rightarrow> real \<Rightarrow> real \<Rightarrow> real \<Rightarrow> real \<Rightarrow> real \<Rightarrow> exn + 'e"
  eng_rinit :: "'e \<Rightarrow> int \<Rightarrow> real \<Rightarrow> exn + ('e \<times> string)"
  eng_run :: "'e \<Rightarrow> int \<Rightarrow> exn + ('e \<times> string)"
  eng_get_residual :: "'e \<Rightarrow> exn + fl list"
  eng_get_fitted_curve :: "'e \<Rightarrow> exn + fl list list"
  eng_get_parameters :: "'e \<Rightarrow> exn + (fl \<times> fl \<times> fl \<times> fl) list"

text \<open>Lines 58 to 60, for \<open>n\<close> voxels.\<close>

definition size_step :: "nat \<Rightarrow> int" where
  "size_step n = max 1 (np_around (real n / 5))"

definition steps1 :: "nat \<Rightarrow> int" where
  "steps1 n = np_around (real n / real_of_int (size_step n))"

text \<open>The loop of lines 66 to 72: \<open>k\<close> calls of the engine's \<^verbatim>\<open>run\<close>, one after the
  other on the engine's state, the log growing. (The progress events put on the queue,
  the debug output and the pauses are left out: they do not touch the engine, the
  result or an exception.)\<close>

fun run_steps :: "'e engine \<Rightarrow> nat \<Rightarrow> int \<Rightarrow> 'e \<times> string \<Rightarrow> exn + ('e \<times> string)" where
  "run_steps eng 0 sz st = Inr st"
| "run_steps eng (Suc k) sz (pk, lg) =
     bind_exn (eng_run eng pk sz) (\<lambda>(pk', l). run_steps eng k sz (pk', lg @ l))"

text \<open>The body of the \<^verbatim>\<open>try\<close> block, lines 23 to 82.\<close>

definition run_pk_body :: "'e engine \<Rightarrow> pk_args \<Rightarrow> exn + fit_output" where
  "run_pk_body eng a =
     (let t1 = map (\<lambda>i. Fin (real i * delt a / 60)) [0 ..< ncols (img1sub a)];
          injtmins = injt a / 60;
          dce_TR = tr1 a / 1000;
          dce_TE = te1 a / 1000;
          ub = [10, 1, 0.5, 0.5];
          lb = [0, 0.05, - 0.5, 0]
      in
      if length (rows (img1sub a)) = 0
      then Inl (QpException ''Pk Modelling - no unmasked data found!'')
      else
      bind_exn (eng_new eng t1 (img1sub a) (t101sub a)) (\<lambda>pk0.
      bind_exn (eng_set_bounds eng pk0 ub lb) (\<lambda>pk1.
      bind_exn (eng_set_parameters eng pk1 (r1 a) (r2 a) (dce_flip_angle a) dce_TR dce_TE (dose a))
        (\<lambda>pk2.
      bind_exn (eng_rinit eng pk2 (model_choice a) injtmins) (\<lambda>st.
      let size_tot = length (rows (img1sub a)) in
      bind_exn (run_steps eng (nat (steps1 size_tot)) (size_step size_tot) st) (\<lambda>(pk3, lg).
      bind_exn (eng_get_residual eng pk3) (\<lambda>res.
      bind_exn (eng_get_fitted_curve eng pk3) (\<lambda>fc.
      bind_exn (eng_get_parameters eng pk3) (\<lambda>ps.
      Inr \<lparr>res1 = res, fcurve1 = fc, params2 = ps, fit_log = lg\<rparr>)))))))))"

text \<open>What the worker returns: the worker id, the success flag, and the results or the
  exception that was caught.\<close>

datatype payload = Result fit_output | Failure exn

definition try_except :: "exn + 'a \<Rightarrow> (exn \<Rightarrow> exn + 'a) \<Rightarrow> exn + 'a" where
  "try_except body handler = (case body of Inl e \<Rightarrow> handler e | Inr x \<Rightarrow> Inr x)"

text \<open>\<^verbatim>\<open>_run_pk\<close> as a Python function: it returns a value (\<open>Inr\<close>) or raises (\<open>Inl\<close>).
  The bare \<^verbatim>\<open>except:\<close> of line 83 handles every exception of the body.\<close>

definition run_pk :: "'e engine \<Rightarrow> nat \<Rightarrow> pk_args \<Rightarrow> exn + (nat \<times> bool \<times> payload)" where
  "run_pk eng worker_id a =
     try_except
       (bind_exn (run_pk_body eng a) (\<lambda>out. Inr (worker_id, True, Result out)))
       (\<lambda>e. Inr (worker_id, False, Failure e))"

section \<open>\<^verbatim>\<open>PkModellingProcess.run\<close>\<close>

text \<open>The option dictionary: a key that is absent is \<open>None\<close>; \<^verbatim>\<open>pop\<close> without a default
  raises KeyError then.\<close>

record options =
  o_roi :: "string option"
  o_suffix :: "string option"
  o_r1 :: "real option"
  o_r2 :: "real option"
  o_dt :: "real option"
  o_tinj :: "real option"
  o_tr :: "real option"
  o_te :: "real option"
  o_fa :: "real option"
  o_ve_thresh :: "real option"
  o_dose :: "real option"
  o_model :: "int option"

definition pop :: "'a option \<Rightarrow> string \<Rightarrow> exn + 'a" where
  "pop v key = (case v of None \<Rightarrow> Inl (KeyError key) | Some x \<Rightarrow> Inr x)"

text \<open>\<^verbatim>\<open>int(x)\<close> of a float truncates towards zero.\<close>

definition py_int :: "real \<Rightarrow> int" where
  "py_int x = (if 0 \<le> x then \<lfloor>x\<rfloor> else \<lceil>x\<rceil>)"

text \<open>
  Line 137, \<^verbatim>\<open>int(1 + InjT / DelT)\<close>, on doubles: the quotient is rounded, then the sum.
  Python raises ZeroDivisionError on a division by zero, and OverflowError when \<^verbatim>\<open>int\<close>
  is given an infinity.
\<close>

definition baseline_tpts :: "real \<Rightarrow> real \<Rightarrow> exn + int" where
  "baseline_tpts InjT DelT =
     (if DelT = 0 then Inl ZeroDivisionError
      else
        let q = round53 (InjT / DelT);
            s = round53 (1 + q)
        in if dbl_max < \<bar>q\<bar> \<or> dbl_max < \<bar>s\<bar> then Inl OverflowError
           else Inr (py_int s))"

text \<open>The slice \<^verbatim>\<open>xs[:k]\<close>: a negative \<open>k\<close> counts from the end.\<close>

definition slice_to :: "int \<Rightarrow> 'a list \<Rightarrow> 'a list" where
  "slice_to k xs = (if 0 \<le> k then take (nat k) xs else take (length xs - nat (- k)) xs)"

text \<open>\<^verbatim>\<open>np.reshape(img1, (-1, T))\<close>: the time series of the voxels, in row-major order of
  the three spatial axes.\<close>

definition voxel_rows :: "nat \<Rightarrow> fl list \<Rightarrow> fl list list" where
  "voxel_rows T xs = map (\<lambda>i. take T (drop (i * T) xs)) [0 ..< length xs div T]"

text \<open>Line 139 on the rows: the mean of \<^verbatim>\<open>row[:baseline_tpts]\<close>.\<close>

definition baseline_of :: "int \<Rightarrow> fl list list \<Rightarrow> fl list" where
  "baseline_of k vrows = map (\<lambda>row. np_mean (slice_to k row)) vrows"

text \<open>Line 157: the denominator of the normalisation, and the normalised rows.\<close>

definition norm_denom :: "fl \<Rightarrow> fl" where
  "norm_denom b = fadd b (Fin 0.001)"

definition normalise :: "fl list list \<Rightarrow> fl list \<Rightarrow> fl list list" where
  "normalise vrows bl =
     map (\<lambda>(row, b). map (\<lambda>x. fsub (fdiv x (norm_denom b)) (Fin 1)) row) (zip vrows bl)"

text \<open>The \<^verbatim>\<open>%i\<close> of line 138: an integer in decimal digits.\<close>

fun show_nat :: "nat \<Rightarrow> string" where
  "show_nat n =
     (if n < 10 then [''0123456789'' ! n]
      else show_nat (n div 10) @ [''0123456789'' ! (n mod 10)])"

declare show_nat.simps [simp del]

definition show_int :: "int \<Rightarrow> string" where
  "show_int i = (if i < 0 then ''-'' @ show_nat (nat (- i)) else show_nat (nat i))"

text \<open>
  \<^verbatim>\<open>run\<close> returns the process with its fields set and the call of \<^verbatim>\<open>start\<close> it ends
  with: the number of workers and the arguments for \<^verbatim>\<open>_run_pk\<close>. The arrays of the data
  store are taken as NumPy gives them, with as many elements as their shape says. When
  \<^verbatim>\<open>run\<close> raises, the result is the exception alone: the fields that the source has
  assigned by then (the log, the suffix) are not part of it.
\<close>

definition run :: "process \<Rightarrow> ivm \<Rightarrow> options \<Rightarrow> exn + (process \<times> nat \<times> pk_args)" where
  "run self s opts =
     bind_exn
       (case o_roi opts of
          None \<Rightarrow> Inr (current_roi s)
        | Some roi_name \<Rightarrow>
            (case rois s roi_name of
               Some r \<Rightarrow> Inr (Some r)
             | None \<Rightarrow> Inl (QpException ''Specified ROI not found'')))
       (\<lambda>roi.
     let sfx0 = (case o_suffix opts of None \<Rightarrow> [] | Some x \<Rightarrow> x);
         sfx = (if sfx0 \<noteq> [] then ''_'' @ sfx0 else sfx0)
     in
     case main s of
       None \<Rightarrow> Inl (QpException ''No data loaded'')
     | Some img1 \<Rightarrow>
     if length (shape img1) \<noteq> 4
     then Inl (QpException ''Data must be 4D for DCE PK modelling'')
     else
     let roi1 = (case roi of
                   Some r \<Rightarrow> r
                 | None \<Rightarrow> \<lparr>shape = take 3 (shape img1),
                            elems = replicate (prod_list (take 3 (shape img1))) (Fin 1)\<rparr>)
     in
     bind_exn (pop (data s ''T10'') ''T10'') (\<lambda>t101.
     bind_exn (pop (o_r1 opts) ''r1'') (\<lambda>R1.
     bind_exn (pop (o_r2 opts) ''r2'') (\<lambda>R2.
     bind_exn (pop (o_dt opts) ''dt'') (\<lambda>DelT.
     bind_exn (pop (o_tinj opts) ''tinj'') (\<lambda>InjT.
     bind_exn (pop (o_tr opts) ''tr'') (\<lambda>TR.
     bind_exn (pop (o_te opts) ''te'') (\<lambda>TE.
     bind_exn (pop (o_fa opts) ''fa'') (\<lambda>FA.
     bind_exn (pop (o_ve_thresh opts) ''ve-thresh'') (\<lambda>thresh.
     let Dose = (case o_dose opts of None \<Rightarrow> 0 | Some d \<Rightarrow> d) in
     bind_exn (pop (o_model opts) ''model'') (\<lambda>model.
     bind_exn (baseline_tpts InjT DelT) (\<lambda>tpts.
     let lg = ''First '' @ show_int tpts
                @ '' time points used for baseline normalisation'' @ [CHR 0x0A];
         T = last (shape img1)
     in
     if T = 0 then Inl ValueError
     else
     let img1vec = voxel_rows T (elems img1);
         baseline = baseline_of tpts img1vec;
         T10vec = elems t101;
         roi1vec = map (\<lambda>x. x \<noteq> Fin 0) (elems roi1)
     in
     bind_exn (mask_select roi1vec img1vec) (\<lambda>sub.
     bind_exn (mask_select roi1vec T10vec) (\<lambda>T101sub.
     bind_exn (mask_select roi1vec baseline) (\<lambda>bl.
     Inr (self\<lparr>p_suffix := sfx, p_thresh1val := thresh, p_roi1vec := roi1vec,
               p_baseline := bl, p_shape := shape img1, p_log := lg\<rparr>,
          1,
          \<lparr>img1sub = \<lparr>ncols = T, rows = normalise sub bl\<rparr>, t101sub = T101sub,
           r1 = R1, r2 = R2, delt = DelT, injt = InjT, tr1 = TR, te1 = TE,
           dce_flip_angle = FA, dose = Dose, model_choice = model\<rparr>))))))))))))))))"

section \<open>The kep formula as the specification words it\<close>

text \<open>
  The specification's rule for kep, for comparison with \<open>kep_of\<close>: the quotient
  \<open>Ktrans / (ve + 0.001)\<close>, a NaN or infinite quotient replaced by 0, then the maximum with
  0, then the upper clamp at 2.
\<close>

definition kep_spec :: "fl \<Rightarrow> fl \<Rightarrow> fl" where
  "kep_spec k v =
     (let q = fdiv k (fadd v (Fin 0.001));
          q0 = (if fl_isnan q \<or> fl_isinf q then 0 else (case q of Fin x \<Rightarrow> x | _ \<Rightarrow> 0))
      in Fin (min (max q0 0) 2))"

section \<open>Concrete inputs\<close>

text \<open>A process as \<^verbatim>\<open>__init__\<close> leaves it (lines 92 to 96).\<close>

definition ex_self0 :: process where
  "ex_self0 =
     \<lparr>p_suffix = [], p_thresh1val = 0, p_roi1vec = [], p_baseline = [], p_shape = [],
      p_log = [], p_status = NOTSTARTED, p_output = []\<rparr>"

text \<open>A data store with a main volume of shape \<open>1 \<times> 1 \<times> 2 \<times> 3\<close> (two voxels, three time
  points), a current ROI over the two voxels and a T10 map.\<close>

definition ex_ivm :: "fl list \<Rightarrow> fl list \<Rightarrow> ivm" where
  "ex_ivm img roi =
     \<lparr>main = Some \<lparr>shape = [1, 1, 2, 3], elems = img\<rparr>,
      current_roi = Some \<lparr>shape = [1, 1, 2], elems = roi\<rparr>,
      rois = Map.empty,
      data = [''T10'' \<mapsto> \<lparr>shape = [1, 1, 2], elems = [Fin 1, Fin 1]\<rparr>],
      added = []\<rparr>"

definition ex_options :: "real \<Rightarrow> real \<Rightarrow> string option \<Rightarrow> options" where
  "ex_options tinj dt sfx =
     \<lparr>o_roi = None, o_suffix = sfx, o_r1 = Some 3.7, o_r2 = Some 4.8, o_dt = Some dt,
      o_tinj = Some tinj, o_tr = Some 4.108, o_te = Some 1.832, o_fa = Some 12,
      o_ve_thresh = Some 100, o_dose = Some 0.1, o_model = Some 1\<rparr>"

text \<open>The largest double below 1 (Python prints it as \<^verbatim>\<open>0.9999999999999999\<close>).\<close>

definition ex_below_one :: real where
  "ex_below_one = 1 - 1 / 2 ^ 53"

text \<open>What \<^verbatim>\<open>run\<close> leaves and hands to \<^verbatim>\<open>start\<close> on that store when the ROI is zero at
  both voxels, the injection time 2 and the sampling interval 1.\<close>

definition ex_empty_process :: process where
  "ex_empty_process =
     \<lparr>p_suffix = [], p_thresh1val = 100, p_roi1vec = [False, False], p_baseline = [],
      p_shape = [1, 1, 2, 3],
      p_log = ''First 3 time points used for baseline normalisation'' @ [CHR 0x0A],
      p_status = NOTSTARTED, p_output = []\<rparr>"

definition ex_empty_args :: pk_args where
  "ex_empty_args =
     \<lparr>img1sub = \<lparr>ncols = 3, rows = []\<rparr>, t101sub = [],
      r1 = 3.7, r2 = 4.8, delt = 1, injt = 2, tr1 = 4.108, te1 = 1.832,
      dce_flip_angle = 12, dose = 0.1, model_choice = 1\<rparr>"

text \<open>Worker arguments with \<open>n\<close> voxels of two time points.\<close>

definition ex_args :: "nat \<Rightarrow> pk_args" where
  "ex_args n =
     \<lparr>img1sub = \<lparr>ncols = 2, rows = replicate n [Fin 0, Fin 1]\<rparr>, t101sub = replicate n (Fin 1),
      r1 = 3.7, r2 = 4.8, delt = 12, injt = 30, tr1 = 4.108, te1 = 1.832,
      dce_flip_angle = 12, dose = 0.1, model_choice = 1\<rparr>"

text \<open>An engine whose state counts the calls of \<^verbatim>\<open>run\<close> and whose second call raises.\<close>

definition ex_engine :: "nat engine" where
  "ex_engine =
     \<lparr>eng_new = (\<lambda>t1 img t10. Inr 0),
      eng_set_bounds = (\<lambda>pk ub lb. Inr pk),
      eng_set_parameters = (\<lambda>pk a b c d e f. Inr pk),
      eng_rinit = (\<lambda>pk m t. Inr (pk, ''init;'')),
      eng_run = (\<lambda>pk sz. if pk = 1 then Inl (Raised ''fit failed'') else Inr (pk + 1, ''run;'')),
      eng_get_residual = (\<lambda>pk. Inr []),
      eng_get_fitted_curve = (\<lambda>pk. Inr []),
      eng_get_parameters = (\<lambda>pk. Inr [])\<rparr>"

text \<open>An engine whose state is the list of the chunk sizes it was asked to fit.\<close>

definition ex_trace_engine :: "int list engine" where
  "ex_trace_engine =
     \<lparr>eng_new = (\<lambda>t1 img t10. Inr []),
      eng_set_bounds = (\<lambda>pk ub lb. Inr pk),
      eng_set_parameters = (\<lambda>pk a b c d e f. Inr pk),
      eng_rinit = (\<lambda>pk m t. Inr (pk, [])),
      eng_run = (\<lambda>pk sz. Inr (pk @ [sz], [])),
      eng_get_residual = (\<lambda>pk. Inr (map (\<lambda>sz. Fin (real_of_int sz)) pk)),
      eng_get_fitted_curve = (\<lambda>pk. Inr []),
      eng_get_parameters = (\<lambda>pk. Inr [])\<rparr>"

text \<open>A worker output with the parameter row \<open>(k, 0.3, 0.1, 0.05)\<close> for each given Ktrans
  value \<open>k\<close>, and a succeeded process over the mask \<open>m\<close> with the percentile \<open>q\<close>, three
  time points and the baseline 100 at every masked voxel.\<close>

definition ex_output :: "fl list \<Rightarrow> fit_output" where
  "ex_output ks =
     \<lparr>res1 = map (\<lambda>k. Fin 0) ks, fcurve1 = map (\<lambda>k. [Fin 0, Fin 0.5, Fin 0.25]) ks,
      params2 = map (\<lambda>k. (k, Fin 0.3, Fin 0.1, Fin 0.05)) ks, fit_log = ''fit;''\<rparr>"

definition ex_process :: "bool list \<Rightarrow> real \<Rightarrow> fl list \<Rightarrow> process" where
  "ex_process m q ks =
     \<lparr>p_suffix = [], p_thresh1val = q, p_roi1vec = m,
      p_baseline = replicate (count_true m) (Fin 100), p_shape = [1, 1, length m, 3],
      p_log = [], p_status = SUCCEEDED, p_output = [ex_output ks]\<rparr>"

text \<open>The calls of \<^verbatim>\<open>add_data\<close> that a result of \<^verbatim>\<open>finished\<close> holds: name,
  \<open>make_current\<close> and the elements of the volume.\<close>

definition published :: "exn + (process \<times> ivm) \<Rightarrow> (string \<times> bool option \<times> fl list) list" where
  "published res =
     (case res of
        Inl e \<Rightarrow> []
      | Inr (p, s) \<Rightarrow> map (\<lambda>c. (ac_name c, ac_make_current c, elems (ac_data c))) (added s))"

text \<open>The flat arrays and the volumes of the succeeded process over the mask
  \<open>[True, False]\<close> with the percentile 50 and the raw Ktrans 1.5.\<close>

definition ex_recon :: recon where
  "ex_recon =
     \<lparr>Ktrans1 = [Fin 1.5, Fin 0], ve1 = [Fin 0.3, Fin 0], kep1 = [Fin 2, Fin 0],
      offset1 = [Fin 0.1, Fin 0], vp1 = [Fin 0.05, Fin 0],
      estimated_curve1 = [[Fin 100, Fin 150, Fin 125], [Fin 0, Fin 0, Fin 0]],
      residual1 = [Fin 0, Fin 0]\<rparr>"

definition ex_volumes :: volumes where
  "ex_volumes =
     \<lparr>Ktrans1vol = \<lparr>shape = [1, 1, 2], elems = [Fin 0.75, Fin 0]\<rparr>,
      ve1vol = \<lparr>shape = [1, 1, 2], elems = [Fin 0.3, Fin 0]\<rparr>,
      kep1vol = \<lparr>shape = [1, 1, 2], elems = [Fin 1, Fin 0]\<rparr>,
      offset1vol = \<lparr>shape = [1, 1, 2], elems = [Fin 0.1, Fin 0]\<rparr>,
      vp1vol = \<lparr>shape = [1, 1, 2], elems = [Fin 0.05, Fin 0]\<rparr>,
      estimated1vol =
        \<lparr>shape = [1, 1, 2, 3], elems = [Fin 100, Fin 150, Fin 125, Fin 0, Fin 0, Fin 0]\<rparr>\<rparr>"

text \<open>The process that \<^verbatim>\<open>run\<close> leaves on the store \<open>ex_ivm\<close> with the ROI \<open>[1, 0]\<close>, the
  injection time 1, the sampling interval 1 and the suffix \<open>a\<close>.\<close>

definition ex_run_process :: process where
  "ex_run_process =
     \<lparr>p_suffix = ''_a'', p_thresh1val = 100, p_roi1vec = [True, False],
      p_baseline = [Fin 1.5], p_shape = [1, 1, 2, 3],
      p_log = ''First 2 time points used for baseline normalisation'' @ [CHR 0x0A],
      p_status = NOTSTARTED, p_output = []\<rparr>"

section \<open>Auxiliary facts\<close>

lemma bind_exn_simps [simp]: "bind_exn (Inl e) f = Inl e" "bind_exn (Inr x) f = f x"
  by (simp_all add: bind_exn_def)

lemma bind_exn_Inr_iff: "bind_exn m f = Inr y \<longleftrightarrow> (\<exists>x. m = Inr x \<and> f x = Inr y)"
  by (cases m) simp_all

lemma bind_exn_Inl_iff:
  "bind_exn m f = Inl e \<longleftrightarrow> m = Inl e \<or> (\<exists>x. m = Inr x \<and> f x = Inl e)"
  by (cases m) simp_all

lemmas finished_eval =
  finished_def reconstruct_def to_volumes_def publish_def add_data_def mask_assign_def
  count_true_def curve_signal_def np_reshape_def np_percentile_def fl_sort_def
  threshold_above_def Let_def clamp_gt_def zero_neg_def kep_of_def clamp_ge_def
  nan_inf_to_zero_def b2f_def fgt_def fge_def eval_nat_numeral

lemma upt_2: "[0..<2] = [0, Suc 0]"
  by (simp add: numeral_2_eq_2)

lemma show_int_digit: "0 \<le> i \<Longrightarrow> i < 10 \<Longrightarrow> show_int i = [''0123456789'' ! nat i]"
  by (simp add: show_int_def show_nat.simps)

subsection \<open>Rounding to a double\<close>

lemma bitlen_nat_small:
  "bitlen_nat 0 = 0" "bitlen_nat (Suc 0) = 1" "bitlen_nat 2 = 2" "bitlen_nat 3 = 2"
  by (simp_all add: bitlen_nat.simps[of 0] bitlen_nat.simps[of 2] bitlen_nat.simps[of 3]
      bitlen_nat.simps[of "Suc 0"])

lemma round53_values:
  "round53 0 = 0" "round53 1 = 1" "round53 2 = 2" "round53 3 = 3"
  by (simp_all add: round53_def expo_def pow2_def np_around_def Let_def bitlen_nat_small)

text \<open>The sum \<open>1 + 0.9999999999999999\<close> lies halfway between two doubles and is rounded
  to the even one, 2.\<close>

lemma round53_below_one:
  "round53 ex_below_one = ex_below_one" "round53 (1 + ex_below_one) = 2"
  by (simp_all add: ex_below_one_def round53_def expo_def pow2_def np_around_def Let_def
      bitlen_nat_small)

lemma dbl_max_small: "x \<le> 3 \<Longrightarrow> \<not> dbl_max < x"
  by (simp add: dbl_max_def)

lemma baseline_tpts_values:
  "baseline_tpts 2 1 = Inr 3" "baseline_tpts 0 2 = Inr 1" "baseline_tpts 1 1 = Inr 2"
  by (simp_all add: baseline_tpts_def round53_values dbl_max_small py_int_def Let_def)

lemma baseline_tpts_below_one: "baseline_tpts ex_below_one 1 = Inr 2"
proof -
  have "\<bar>ex_below_one\<bar> \<le> 3" by (simp add: ex_below_one_def)
  then show ?thesis
    by (simp add: baseline_tpts_def round53_below_one dbl_max_small py_int_def Let_def)
qed

lemma pow2_pos: "0 < pow2 e"
  by (simp add: pow2_def)

lemma np_around_nonneg: "0 \<le> x \<Longrightarrow> 0 \<le> np_around x"
  by (auto simp: np_around_def Let_def)

lemma np_around_ge: "real_of_int m \<le> x \<Longrightarrow> m \<le> np_around x"
proof -
  assume "real_of_int m \<le> x"
  then have "m \<le> \<lfloor>x\<rfloor>" by (simp add: le_floor_iff)
  then show ?thesis by (auto simp: np_around_def Let_def)
qed

lemma round53_nonneg: "0 \<le> x \<Longrightarrow> 0 \<le> round53 x"
  using pow2_pos[of "expo \<bar>x\<bar> - 52"]
  by (auto simp: round53_def Let_def intro!: mult_nonneg_nonneg np_around_nonneg)

lemma bitlen_nat_pos: "n \<noteq> 0 \<Longrightarrow> 0 < bitlen_nat n"
  by (subst bitlen_nat.simps) simp

lemma bitlen_nat_lower: "n \<noteq> 0 \<Longrightarrow> 2 ^ (bitlen_nat n - 1) \<le> n"
proof (induction n rule: bitlen_nat.induct)
  case (1 n)
  show ?case
  proof (cases "n div 2 = 0")
    case True
    with "1.prems" have "n = 1" by (cases n) auto
    then show ?thesis by (simp add: bitlen_nat.simps[of "Suc 0"] bitlen_nat.simps[of 0])
  next
    case False
    with "1.IH" "1.prems" have ih: "2 ^ (bitlen_nat (n div 2) - 1) \<le> n div 2" by simp
    from bitlen_nat_pos[OF False] obtain k where k: "bitlen_nat (n div 2) = Suc k"
      by (cases "bitlen_nat (n div 2)") auto
    have "bitlen_nat n = Suc (Suc k)" using "1.prems" k by (subst bitlen_nat.simps) simp
    then have "2 ^ (bitlen_nat n - 1) = 2 * 2 ^ k" by simp
    also have "\<dots> \<le> 2 * (n div 2)" using ih k by simp
    also have "\<dots> \<le> n" by simp
    finally show ?thesis .
  qed
qed

lemma pow2_shift: "2 ^ c * pow2 (int b - int c) = 2 ^ b"
proof (cases "c \<le> b")
  case True
  then have "pow2 (int b - int c) = 2 ^ (b - c)" by (simp add: pow2_def nat_diff_distrib)
  moreover have "(2::real) ^ c * 2 ^ (b - c) = 2 ^ (c + (b - c))" by (simp only: power_add)
  ultimately show ?thesis using True by simp
next
  case False
  then have "nat (- (int b - int c)) = c - b" by simp
  with False have "pow2 (int b - int c) = 1 / 2 ^ (c - b)" by (simp add: pow2_def)
  moreover have "(2::real) ^ c = 2 ^ (b + (c - b))" using False by simp
  then have "(2::real) ^ c = 2 ^ b * 2 ^ (c - b)" by (simp only: power_add)
  ultimately show ?thesis by simp
qed

text \<open>Rounding does not take a value that is at least 1 below 1.\<close>

lemma round53_ge_one:
  assumes "1 \<le> x"
  shows "1 \<le> round53 x"
proof -
  let ?n = "nat \<lfloor>x\<rfloor>"
  from assms have n0: "?n \<noteq> 0" by simp
  obtain b where b: "bitlen_nat ?n = Suc b"
    using bitlen_nat_pos[OF n0] by (cases "bitlen_nat ?n") auto
  have lo: "(2::nat) ^ b \<le> ?n" using bitlen_nat_lower[OF n0] b by simp
  have "real ?n \<le> x" using assms by simp
  with lo have x2: "2 ^ b \<le> x"
    by (metis (mono_tags) of_nat_le_iff of_nat_numeral of_nat_power order_trans)
  have e: "expo \<bar>x\<bar> = int b" using assms b by (simp add: expo_def)
  let ?q = "pow2 (int b - 52)"
  have q0: "0 < ?q" by (rule pow2_pos)
  have qe: "2 ^ 52 * ?q = 2 ^ b" using pow2_shift[of 52 b] by simp
  have "real_of_int (2 ^ 52) * ?q \<le> x" using x2 qe by simp
  then have "real_of_int (2 ^ 52) \<le> x / ?q" using q0 by (simp add: pos_le_divide_eq)
  then have "2 ^ 52 \<le> np_around (x / ?q)" by (rule np_around_ge)
  then have "(2::real) ^ 52 \<le> real_of_int (np_around (x / ?q))"
    by (metis of_int_le_iff of_int_numeral of_int_power)
  then have "2 ^ 52 * ?q \<le> real_of_int (np_around (x / ?q)) * ?q"
    using q0 by (simp add: mult_right_mono)
  then have "2 ^ b \<le> real_of_int (np_around (x / ?q)) * ?q" using qe by simp
  moreover have "(1::real) \<le> 2 ^ b" by simp
  moreover have "round53 x = real_of_int (np_around (x / ?q)) * ?q"
    using assms e by (simp add: round53_def Let_def)
  ultimately show ?thesis by linarith
qed

text \<open>For an injection time that is not negative and a positive sampling interval the
  number of baseline points is at least 1.\<close>

lemma baseline_tpts_ge_one:
  assumes "0 \<le> InjT" and "0 < DelT" and "baseline_tpts InjT DelT = Inr k"
  shows "1 \<le> k"
proof -
  let ?q = "round53 (InjT / DelT)"
  from assms(1,2) have "0 \<le> ?q" by (intro round53_nonneg) simp
  then have "1 \<le> round53 (1 + ?q)" by (intro round53_ge_one) simp
  moreover from assms(2,3) have "k = py_int (round53 (1 + ?q))"
    by (auto simp: baseline_tpts_def Let_def split: if_splits)
  ultimately show ?thesis by (simp add: py_int_def le_floor_iff)
qed

lemmas run_eval =
  run_def Let_def pop_def baseline_tpts_values baseline_tpts_below_one voxel_rows_def
  baseline_of_def slice_to_def np_mean_def fl_sum_def mask_select_def normalise_def
  norm_denom_def fsub_def upt_2

subsection \<open>Masks\<close>

lemma length_scatter [simp]: "length (scatter m vs z) = length m"
  by (induction m vs z rule: scatter.induct) auto

lemma scatter_outside: "i < length m \<Longrightarrow> \<not> m ! i \<Longrightarrow> scatter m vs z ! i = z"
proof (induction m vs z arbitrary: i rule: scatter.induct)
  case (1 vs z)
  then show ?case by simp
next
  case (2 ms v vs z)
  then show ?case by (cases i) auto
next
  case (3 ms z)
  then show ?case by (cases i) auto
next
  case (4 ms vs z)
  then show ?case by (cases i) auto
qed

lemma set_scatter: "set (scatter m vs z) \<subseteq> insert z (set vs)"
  by (induction m vs z rule: scatter.induct) auto

lemma mask_assign_Inr:
  "mask_assign m vs z = Inr xs \<Longrightarrow> xs = scatter m vs z \<and> length vs = count_true m"
  by (auto simp: mask_assign_def split: if_splits)

lemma length_filter_zip:
  "length m = length xs \<Longrightarrow> length (filter fst (zip m xs)) = count_true m"
  by (induction m xs rule: list_induct2) (auto simp: count_true_def)

lemma mask_select_length: "mask_select m xs = Inr ys \<Longrightarrow> length ys = count_true m"
  by (auto simp: mask_select_def length_filter_zip split: if_splits)

lemma mask_select_Inl_iff:
  "mask_select m xs = Inl e \<longleftrightarrow> length m \<noteq> length xs \<and> e = IndexError"
  by (auto simp: mask_select_def)

subsection \<open>What a returning \<^verbatim>\<open>run\<close> has done\<close>

lemma pop_Inr_iff: "pop v key = Inr x \<longleftrightarrow> v = Some x"
  by (cases v) (simp_all add: pop_def)

lemma pop_Inl_iff: "pop v key = Inl e \<longleftrightarrow> v = None \<and> e = KeyError key"
  by (cases v) (auto simp: pop_def)

lemma baseline_tpts_Inl:
  "baseline_tpts x y = Inl e \<Longrightarrow> e = ZeroDivisionError \<or> e = OverflowError"
  by (auto simp: baseline_tpts_def Let_def split: if_splits)

lemma roi_lookup_Inl:
  "(case ro of
      None \<Rightarrow> Inr c
    | Some roi_name \<Rightarrow>
        (case r roi_name of
           Some x \<Rightarrow> Inr (Some x)
         | None \<Rightarrow> Inl (QpException ''Specified ROI not found''))) = Inl e
   \<Longrightarrow> e = QpException ''Specified ROI not found''"
  by (auto split: option.splits)

lemma run_InrD:
  assumes "run self s opts = Inr (p, n, a)"
  shows "\<exists>img1 roi tpts sub InjT DelT.
    main s = Some img1 \<and> length (shape img1) = 4 \<and> last (shape img1) \<noteq> 0 \<and>
    (case o_roi opts of
       None \<Rightarrow> Inr (current_roi s)
     | Some roi_name \<Rightarrow>
         (case rois s roi_name of
            Some r \<Rightarrow> Inr (Some r)
          | None \<Rightarrow> Inl (QpException ''Specified ROI not found''))) = Inr roi \<and>
    o_tinj opts = Some InjT \<and> o_dt opts = Some DelT \<and> baseline_tpts InjT DelT = Inr tpts \<and>
    p_roi1vec p = map (\<lambda>x. x \<noteq> Fin 0)
      (elems (case roi of
                Some r \<Rightarrow> r
              | None \<Rightarrow> \<lparr>shape = take 3 (shape img1),
                         elems = replicate (prod_list (take 3 (shape img1))) (Fin 1)\<rparr>)) \<and>
    mask_select (p_roi1vec p) (voxel_rows (last (shape img1)) (elems img1)) = Inr sub \<and>
    mask_select (p_roi1vec p)
      (baseline_of tpts (voxel_rows (last (shape img1)) (elems img1))) = Inr (p_baseline p) \<and>
    rows (img1sub a) = normalise sub (p_baseline p) \<and>
    ncols (img1sub a) = last (shape img1) \<and> n = 1 \<and> p_shape p = shape img1 \<and>
    p_suffix p =
      (case o_suffix opts of None \<Rightarrow> [] | Some x \<Rightarrow> if x \<noteq> [] then ''_'' @ x else x) \<and>
    o_ve_thresh opts = Some (p_thresh1val p)"
proof (cases "main s")
  case None
  with assms show ?thesis
    by (simp add: run_def Let_def bind_exn_Inr_iff)
next
  case (Some img1)
  with assms show ?thesis
    by (auto simp add: run_def Let_def bind_exn_Inr_iff pop_Inr_iff split: if_splits)
       (cases "o_suffix opts"; simp)+
qed

lemma run_not_empty_selection:
  "run self s opts \<noteq> Inl (QpException ''Pk Modelling - no unmasked data found!'')"
proof
  assume a: "run self s opts = Inl (QpException ''Pk Modelling - no unmasked data found!'')"
  show False
  proof (cases "main s")
    case None
    with a show False
      by (auto simp: run_def Let_def bind_exn_Inl_iff dest: roi_lookup_Inl)
  next
    case (Some img1)
    with a show False
      by (auto simp: run_def Let_def bind_exn_Inl_iff pop_Inl_iff mask_select_Inl_iff
          dest: roi_lookup_Inl baseline_tpts_Inl split: if_splits)
  qed
qed

lemma run_empty_mask:
  "run ex_self0 (ex_ivm [Fin 1, Fin 2, Fin 3, Fin 4, Fin 5, Fin 6] [Fin 0, Fin 0])
     (ex_options 2 1 None) = Inr (ex_empty_process, 1, ex_empty_args)"
  by (simp add: ex_self0_def ex_ivm_def ex_options_def ex_empty_process_def ex_empty_args_def
      run_def Let_def pop_def baseline_tpts_values voxel_rows_def baseline_of_def
      mask_select_def normalise_def show_int_digit upt_2)

subsection \<open>The worker\<close>

lemma normalise_Nil [simp]: "normalise [] bl = []"
  by (simp add: normalise_def)

lemma run_pk_no_rows:
  "rows (img1sub a) = [] \<Longrightarrow>
   run_pk eng wid a =
     Inr (wid, False, Failure (QpException ''Pk Modelling - no unmasked data found!''))"
  by (simp add: run_pk_def run_pk_body_def try_except_def Let_def)

lemma run_pk_total: "\<exists>ok res. run_pk eng wid a = Inr (wid, ok, res)"
  by (cases "run_pk_body eng a") (auto simp: run_pk_def try_except_def)

lemma run_pk_failure:
  "run_pk_body eng a = Inl e \<Longrightarrow> run_pk eng wid a = Inr (wid, False, Failure e)"
  by (simp add: run_pk_def try_except_def)

text \<open>The parameter matrix that a successful worker returns is what the engine's
  \<^verbatim>\<open>get_parameters\<close> gave: the bounds of lines 37 and 38 go to the engine, and nothing
  after the engine enforces them.\<close>

lemma run_pk_body_params:
  "run_pk_body eng a = Inr out \<Longrightarrow> \<exists>pk. eng_get_parameters eng pk = Inr (params2 out)"
  by (auto simp: run_pk_body_def Let_def bind_exn_Inr_iff split: if_splits)

text \<open>An exception of the engine's \<^verbatim>\<open>run\<close> in any of the calls of the loop ends the
  loop with that exception.\<close>

lemma run_steps_raise:
  "run_steps eng j sz st = Inr (pk, lg) \<Longrightarrow> eng_run eng pk sz = Inl e \<Longrightarrow> j < k
   \<Longrightarrow> run_steps eng k sz st = Inl e"
proof (induction eng j sz st arbitrary: k rule: run_steps.induct)
  case (1 eng sz st)
  then obtain k' where "k = Suc k'" by (cases k) auto
  with 1 show ?case by simp
next
  case (2 eng j sz pk0 lg0)
  from "2.prems"(3) obtain k' where k: "k = Suc k'" and jk: "j < k'" by (cases k) auto
  from "2.prems"(1) obtain pk1 l1 where
    r: "eng_run eng pk0 sz = Inr (pk1, l1)" and
    rest: "run_steps eng j sz (pk1, lg0 @ l1) = Inr (pk, lg)"
    by (auto simp: bind_exn_Inr_iff)
  from "2.IH"[OF rest "2.prems"(2) jk] r have "run_steps eng k' sz (pk1, lg0 @ l1) = Inl e"
    by simp
  with r k show ?case by simp
qed

lemma steps1_5: "steps1 5 = 5" "size_step 5 = 1"
  by (simp_all add: size_step_def steps1_def np_around_def Let_def)

subsection \<open>What a returning \<^verbatim>\<open>finished\<close> has computed\<close>

lemma reconstruct_InrD:
  assumes "reconstruct self var1 = Inr r"
  shows "Ktrans1 r =
           scatter (p_roi1vec self) (map (\<lambda>(k, v, off, p). clamp_gt k) (params2 var1)) (Fin 0)"
    and "ve1 r =
           map zero_neg
             (scatter (p_roi1vec self) (map (\<lambda>(k, v, off, p). clamp_gt v) (params2 var1)) (Fin 0))"
    and "kep1 r = map (\<lambda>(k, v). kep_of k v) (zip (Ktrans1 r) (ve1 r))"
    and "offset1 r =
           scatter (p_roi1vec self) (map (\<lambda>(k, v, off, p). off) (params2 var1)) (Fin 0)"
    and "vp1 r = scatter (p_roi1vec self) (map (\<lambda>(k, v, off, p). p) (params2 var1)) (Fin 0)"
    and "\<exists>sig. curve_signal (fcurve1 var1) (p_baseline self) (last (p_shape self)) = Inr sig \<and>
           estimated_curve1 r =
             scatter (p_roi1vec self) sig (replicate (last (p_shape self)) (Fin 0))"
  using assms
  by (auto simp: reconstruct_def Let_def bind_exn_Inr_iff dest!: mask_assign_Inr split: if_splits)

lemma to_volumes_InrD:
  assumes "to_volumes self r = Inr v"
  shows "\<exists>p. np_percentile (Ktrans1 r) (p_thresh1val self) = Inr p \<and>
           elems (Ktrans1vol v) = threshold_above p (Ktrans1 r)"
    and "\<exists>p. np_percentile (kep1 r) (p_thresh1val self) = Inr p \<and>
           elems (kep1vol v) = threshold_above p (kep1 r)"
    and "elems (ve1vol v) = ve1 r"
    and "elems (offset1vol v) = offset1 r"
    and "elems (vp1vol v) = vp1 r"
    and "elems (estimated1vol v) = concat (estimated_curve1 r)"
  using assms
  by (auto simp: to_volumes_def Let_def bind_exn_Inr_iff np_reshape_def split: if_splits)

lemma reconstruct_log [simp]: "reconstruct (self\<lparr>p_log := l\<rparr>) var1 = reconstruct self var1"
  by (simp add: reconstruct_def)

lemma to_volumes_log [simp]: "to_volumes (self\<lparr>p_log := l\<rparr>) r = to_volumes self r"
  by (simp add: to_volumes_def)

lemma publish_log [simp]: "publish (self\<lparr>p_log := l\<rparr>) v s = publish self v s"
  by (simp add: publish_def)

text \<open>\<^verbatim>\<open>finished\<close> on a succeeded process is the reconstruction of the first worker's
  output, the volumes of it, and their publication.\<close>

lemma finished_InrD:
  assumes "p_status self = SUCCEEDED" and "finished self s = Inr (self', s')"
  shows "\<exists>var1 rest r v. p_output self = var1 # rest \<and> reconstruct self var1 = Inr r \<and>
           to_volumes self r = Inr v \<and> s' = publish self v s \<and>
           self' = self\<lparr>p_log := p_log self @ fit_log var1\<rparr>"
  using assms
  by (cases "p_output self") (auto simp: finished_def Let_def bind_exn_Inr_iff)

subsection \<open>The percentile\<close>

lemma set_fl_insort [simp]: "set (fl_insort x ys) = insert x (set ys)"
  by (induction ys) auto

lemma length_fl_insort [simp]: "length (fl_insort x ys) = Suc (length ys)"
  by (induction ys) auto

lemma set_fl_sort [simp]: "set (fl_sort xs) = set xs"
  by (induction xs) (auto simp: fl_sort_def)

lemma length_fl_sort [simp]: "length (fl_sort xs) = length xs"
  by (induction xs) (auto simp: fl_sort_def)

text \<open>The lower rank is inside the array and the weight of the upper rank is in
  \<open>[0, 1]\<close>.\<close>

lemma percentile_index:
  fixes q :: real and n :: nat
  assumes "0 \<le> q" "q \<le> 100" "0 < n"
  shows "nat \<lfloor>q / 100 * real (n - 1)\<rfloor> < n"
    and "0 \<le> q / 100 * real (n - 1) - real (nat \<lfloor>q / 100 * real (n - 1)\<rfloor>)"
    and "q / 100 * real (n - 1) - real (nat \<lfloor>q / 100 * real (n - 1)\<rfloor>) \<le> 1"
proof -
  let ?idx = "q / 100 * real (n - 1)"
  have q1: "q / 100 \<le> 1" using assms by simp
  have i0: "0 \<le> ?idx" using assms by simp
  have "?idx \<le> 1 * real (n - 1)"
    by (rule mult_right_mono[OF q1]) simp
  then have i1: "?idx \<le> real (n - 1)" by simp
  then have "\<lfloor>?idx\<rfloor> \<le> int (n - 1)" by (simp add: floor_le_iff)
  moreover have f0: "0 \<le> \<lfloor>?idx\<rfloor>" using i0 by simp
  ultimately show "nat \<lfloor>?idx\<rfloor> < n" using assms(3) by linarith
  have r: "real (nat \<lfloor>?idx\<rfloor>) = of_int \<lfloor>?idx\<rfloor>" using f0 by simp
  show "0 \<le> ?idx - real (nat \<lfloor>?idx\<rfloor>)" unfolding r by linarith
  show "?idx - real (nat \<lfloor>?idx\<rfloor>) \<le> 1" unfolding r by linarith
qed

text \<open>The percentile of finite values that are not negative is not negative.\<close>

lemma np_percentile_nonneg:
  assumes "np_percentile xs q = Inr p" and "\<forall>x\<in>set xs. \<exists>a. x = Fin a \<and> 0 \<le> a"
  shows "\<not> flt p (Fin 0)"
proof (cases "xs = [] \<or> list_ex fl_isnan xs")
  case True
  with assms(1) have "p = NaN" by (auto simp: np_percentile_def split: if_splits)
  then show ?thesis by simp
next
  case False
  from assms(1) have q: "0 \<le> q" "q \<le> 100" by (auto simp: np_percentile_def split: if_splits)
  let ?s = "fl_sort xs"
  let ?n = "length xs"
  let ?idx = "q / 100 * real (?n - 1)"
  let ?lo = "nat \<lfloor>?idx\<rfloor>"
  let ?hi = "min (?lo + 1) (?n - 1)"
  let ?w = "?idx - real ?lo"
  from False have n: "0 < ?n" by simp
  have p: "p = fadd (fmul (?s ! ?lo) (Fin (1 - ?w))) (fmul (?s ! ?hi) (Fin ?w))"
    using assms(1) False q by (simp add: np_percentile_def Let_def)
  have lo: "?lo < ?n" by (rule percentile_index(1)[OF q n])
  have w0: "0 \<le> ?w" by (rule percentile_index(2)[OF q n])
  have w1: "?w \<le> 1" by (rule percentile_index(3)[OF q n])
  have "?hi \<le> ?n - 1" by (rule min.cobounded2)
  with n have hi: "?hi < ?n" by linarith
  have "?s ! ?lo \<in> set xs" using lo by (metis length_fl_sort nth_mem set_fl_sort)
  then obtain a where a: "?s ! ?lo = Fin a" "0 \<le> a" using assms(2) by blast
  have "?s ! ?hi \<in> set xs" using hi by (metis length_fl_sort nth_mem set_fl_sort)
  then obtain b where b: "?s ! ?hi = Fin b" "0 \<le> b" using assms(2) by blast
  have "0 \<le> a * (1 - ?w) + b * ?w" using a b w0 w1 by simp
  then show ?thesis unfolding p a b by simp
qed

subsection \<open>kep and the curves\<close>

lemma kep_of_spec: "kep_of k v = kep_spec k v"
  by (cases "fdiv k (fadd v (Fin 0.001))")
     (auto simp: kep_of_def kep_spec_def clamp_ge_def zero_neg_def nan_inf_to_zero_def
        b2f_def fgt_def fge_def Let_def)

lemma kep_of_range: "\<exists>a. kep_of k v = Fin a \<and> 0 \<le> a \<and> a \<le> 2"
  by (cases "fdiv k (fadd v (Fin 0.001))")
     (auto simp: kep_of_def clamp_ge_def zero_neg_def nan_inf_to_zero_def b2f_def fgt_def fge_def)

lemma kep_of_zero: "kep_of (Fin 0) (zero_neg (Fin 0)) = Fin 0"
  by (simp add: kep_of_def clamp_ge_def zero_neg_def nan_inf_to_zero_def b2f_def fgt_def fge_def)

lemma concat_uniform_nth:
  "\<forall>r\<in>set xss. length r = T \<Longrightarrow> i < length xss \<Longrightarrow> t < T
   \<Longrightarrow> concat xss ! (i * T + t) = xss ! i ! t"
proof (induction xss arbitrary: i)
  case Nil
  then show ?case by simp
next
  case (Cons x xss)
  show ?case
  proof (cases i)
    case 0
    with Cons.prems show ?thesis by (simp add: nth_append)
  next
    case (Suc i')
    with Cons.prems have "concat xss ! (i' * T + t) = xss ! i' ! t"
      by (intro Cons.IH) auto
    moreover have "length x = T" using Cons.prems by simp
    ultimately show ?thesis using Suc by (simp add: nth_append)
  qed
qed

lemma curve_signal_rows:
  "curve_signal fc bl T = Inr sig \<Longrightarrow> \<forall>r\<in>set sig. length r = T"
  by (auto simp: curve_signal_def list_all_iff split: if_splits dest!: set_zip_leftD)

subsection \<open>The example reconstruction\<close>

lemma clamp_gt_Fin:
  "clamp_gt (Fin x) = (if x < 2 then Fin x else if 2 < x then Fin 2 else Fin 0)"
  by (simp add: clamp_gt_def b2f_def fgt_def)

lemma ex_reconstruct:
  "reconstruct (ex_process [True, False] 50 [Fin 1.5]) (ex_output [Fin 1.5]) = Inr ex_recon"
  by (simp add: ex_process_def ex_output_def ex_recon_def finished_eval)

lemma ex_to_volumes:
  "to_volumes (ex_process [True, False] 50 [Fin 1.5]) ex_recon = Inr ex_volumes"
  by (simp add: ex_process_def ex_recon_def ex_volumes_def finished_eval)

lemma ex_ktrans_percentile:
  "np_percentile (Ktrans1 ex_recon) (p_thresh1val (ex_process [True, False] 50 [Fin 1.5]))
     = Inr (Fin 0.75)"
  by (simp add: ex_process_def ex_recon_def finished_eval)

section \<open>The claims\<close>

subsection \<open>C1: an empty selection\<close>

text \<open>
  Claim C1, as amended. \<^verbatim>\<open>run\<close> never raises the empty-selection error itself. When it
  returns and the flattened mask has no True entry, it has dispatched one worker with a
  voxel array of no rows, and the worker function, whatever the engine, returns the
  failure value that carries the exception "Pk Modelling - no unmasked data found!".
\<close>

theorem empty_selection_reported_by_worker:
  "run self s opts \<noteq> Inl (QpException ''Pk Modelling - no unmasked data found!'') \<and>
   (run self s opts = Inr (p, n, a) \<longrightarrow> count_true (p_roi1vec p) = 0 \<longrightarrow>
      n = 1 \<and> rows (img1sub a) = [] \<and>
      run_pk eng wid a =
        Inr (wid, False, Failure (QpException ''Pk Modelling - no unmasked data found!'')))"
proof (intro conjI impI)
  show "run self s opts \<noteq> Inl (QpException ''Pk Modelling - no unmasked data found!'')"
    by (rule run_not_empty_selection)
next
  assume r: "run self s opts = Inr (p, n, a)" and c: "count_true (p_roi1vec p) = 0"
  from run_InrD[OF r] obtain img1 :: ndarray and sub where
    sub: "mask_select (p_roi1vec p) (voxel_rows (last (shape img1)) (elems img1)) = Inr sub"
    and rows: "rows (img1sub a) = normalise sub (p_baseline p)" and n: "n = 1"
    by blast
  from mask_select_length[OF sub] c have "sub = []" by simp
  with rows have e: "rows (img1sub a) = []" by simp
  with n show "n = 1" "rows (img1sub a) = []" by simp_all
  show "run_pk eng wid a =
        Inr (wid, False, Failure (QpException ''Pk Modelling - no unmasked data found!''))"
    by (rule run_pk_no_rows[OF e])
qed

theorem empty_selection_reported_by_worker_witness:
  "run ex_self0 (ex_ivm [Fin 1, Fin 2, Fin 3, Fin 4, Fin 5, Fin 6] [Fin 0, Fin 0])
     (ex_options 2 1 None) = Inr (ex_empty_process, 1, ex_empty_args) \<and>
   count_true (p_roi1vec ex_empty_process) = 0 \<and>
   rows (img1sub ex_empty_args) = [] \<and>
   run_pk ex_engine 7 ex_empty_args =
     Inr (7, False, Failure (QpException ''Pk Modelling - no unmasked data found!''))"
proof -
  have c: "count_true (p_roi1vec ex_empty_process) = 0"
    by (simp add: ex_empty_process_def count_true_def)
  from empty_selection_reported_by_worker
         [of ex_self0 _ _ ex_empty_process 1 ex_empty_args ex_engine 7]
    run_empty_mask c
  show ?thesis by simp
qed

text \<open>The claim as stated fails: with the ROI zero at both voxels \<^verbatim>\<open>run\<close> does not fail
  but dispatches the worker, and the error comes back as the worker's failure value.\<close>

theorem empty_selection_counterexample:
  "run ex_self0 (ex_ivm [Fin 1, Fin 2, Fin 3, Fin 4, Fin 5, Fin 6] [Fin 0, Fin 0])
     (ex_options 2 1 None) = Inr (ex_empty_process, 1, ex_empty_args) \<and>
   run_pk ex_engine 0 ex_empty_args =
     Inr (0, False, Failure (QpException ''Pk Modelling - no unmasked data found!''))"
  by (simp add: run_empty_mask run_pk_def run_pk_body_def try_except_def ex_empty_args_def)

subsection \<open>C2: the clamp of Ktrans\<close>

text \<open>
  Claim C2 says that a raw Ktrans of exactly 2.0 reconstructs to 2.0. The code of line 183
  gives 0 there: neither \<^verbatim>\<open>x < 2.0\<close> nor \<^verbatim>\<open>x > 2.0\<close> holds, while the clamp of kep in
  line 192, written with \<^verbatim>\<open>>=\<close>, gives 2. The published Ktrans volume of one masked voxel
  with the raw row \<open>(2, 0.3, 0.1, 0.05)\<close> holds 0.
\<close>

theorem ktrans_of_exactly_two:
  "clamp_gt (Fin 2) = Fin 0 \<and> clamp_ge (Fin 2) = Fin 2 \<and>
   published (finished (ex_process [True] 100 [Fin 2]) (ex_ivm [] [])) =
     [(''ktrans'', Some True, [Fin 0]), (''ve'', None, [Fin (3 / 10)]),
      (''kep'', None, [Fin 0]), (''offset'', None, [Fin (1 / 10)]),
      (''vp'', None, [Fin (1 / 20)]),
      (''model_curves'', None, [Fin 100, Fin 150, Fin 125])]"
  by (simp add: published_def ex_process_def ex_output_def ex_ivm_def finished_eval)

subsection \<open>C3: zero outside the mask\<close>

text \<open>When no raw Ktrans value is negative (the engine is given the lower bound 0),
  the percentile of the Ktrans volume is not negative.\<close>

lemma ktrans_percentile_nonneg:
  assumes rec: "reconstruct self var1 = Inr r"
    and raw: "\<forall>(k, v, off, p)\<in>set (params2 var1). \<exists>a. k = Fin a \<and> 0 \<le> a"
    and pk: "np_percentile (Ktrans1 r) q = Inr p"
  shows "\<not> flt p (Fin 0)"
proof -
  let ?ks = "map (\<lambda>(k, v, off, p). clamp_gt k) (params2 var1)"
  have "\<forall>x\<in>set ?ks. \<exists>a. x = Fin a \<and> 0 \<le> a"
    using raw by (fastforce simp: clamp_gt_Fin)
  moreover have "set (Ktrans1 r) \<subseteq> insert (Fin 0) (set ?ks)"
    unfolding reconstruct_InrD(1)[OF rec] by (rule set_scatter)
  ultimately have "\<forall>x\<in>set (Ktrans1 r). \<exists>a. x = Fin a \<and> 0 \<le> a" by auto
  with pk show ?thesis by (rule np_percentile_nonneg)
qed

text \<open>
  Claim C3, as amended. Every voxel outside the mask holds 0 in the ve, kep, offset and vp
  volumes and at each time point of the curve volume, for every input and after the
  thresholding of kep. In the Ktrans volume it holds 0 when the percentile of the Ktrans
  volume is not negative, and that (negative) percentile otherwise. (The volumes are those
  that \<^verbatim>\<open>finished\<close> publishes, see \<open>finished_InrD\<close>.)
\<close>

theorem outside_mask_zero:
  assumes rec: "reconstruct self var1 = Inr r"
    and vol: "to_volumes self r = Inr v"
    and pk: "np_percentile (Ktrans1 r) (p_thresh1val self) = Inr p"
    and i: "i < length (p_roi1vec self)"
    and out: "\<not> p_roi1vec self ! i"
  shows "elems (ve1vol v) ! i = Fin 0 \<and>
         elems (kep1vol v) ! i = Fin 0 \<and> elems (offset1vol v) ! i = Fin 0 \<and>
         elems (vp1vol v) ! i = Fin 0 \<and>
         (\<forall>t < last (p_shape self).
            elems (estimated1vol v) ! (i * last (p_shape self) + t) = Fin 0) \<and>
         (\<not> flt p (Fin 0) \<longrightarrow> elems (Ktrans1vol v) ! i = Fin 0) \<and>
         (flt p (Fin 0) \<longrightarrow> elems (Ktrans1vol v) ! i = p)"
proof -
  let ?m = "p_roi1vec self"
  let ?T = "last (p_shape self)"
  note R = reconstruct_InrD[OF rec]
  note V = to_volumes_InrD[OF vol]
  have k0: "Ktrans1 r ! i = Fin 0" using R(1) i out by (simp add: scatter_outside)
  have lk: "length (Ktrans1 r) = length ?m" using R(1) by simp
  have v0: "ve1 r ! i = Fin 0" using R(2) i out by (simp add: scatter_outside zero_neg_def b2f_def)
  have lv: "length (ve1 r) = length ?m" using R(2) by simp
  have ke0: "kep1 r ! i = Fin 0"
    using R(3) i lk lv k0 v0 kep_of_zero by (simp add: zero_neg_def b2f_def)
  have lke: "length (kep1 r) = length ?m" using R(3) lk lv by simp
  from V(1) pk have ekt: "elems (Ktrans1vol v) = threshold_above p (Ktrans1 r)" by auto
  have kt1: "\<not> flt p (Fin 0) \<longrightarrow> elems (Ktrans1vol v) ! i = Fin 0"
    using ekt i lk k0 by (simp add: threshold_above_def fgt_def)
  have kt2: "flt p (Fin 0) \<longrightarrow> elems (Ktrans1vol v) ! i = p"
    using ekt i lk k0 by (simp add: threshold_above_def fgt_def)
  have ve: "elems (ve1vol v) ! i = Fin 0" using V(3) v0 by simp
  have kep: "elems (kep1vol v) ! i = Fin 0"
  proof -
    from V(2) obtain p2 where
      p2: "np_percentile (kep1 r) (p_thresh1val self) = Inr p2"
      and e: "elems (kep1vol v) = threshold_above p2 (kep1 r)" by blast
    have "\<forall>x\<in>set (kep1 r). \<exists>a. x = Fin a \<and> 0 \<le> a"
      unfolding R(3) using kep_of_range by (fastforce dest!: set_zip_leftD simp: in_set_zip)
    from np_percentile_nonneg[OF p2 this] have "\<not> flt p2 (Fin 0)" .
    then show ?thesis using e i lke ke0 by (simp add: threshold_above_def fgt_def)
  qed
  have off: "elems (offset1vol v) ! i = Fin 0" using V(4) R(4) i out by (simp add: scatter_outside)
  have vp: "elems (vp1vol v) ! i = Fin 0" using V(5) R(5) i out by (simp add: scatter_outside)
  have cur: "\<forall>t < ?T. elems (estimated1vol v) ! (i * ?T + t) = Fin 0"
  proof (intro allI impI)
    fix t assume t: "t < ?T"
    from R(6) obtain sig where
      sg: "curve_signal (fcurve1 var1) (p_baseline self) ?T = Inr sig"
      and est: "estimated_curve1 r = scatter ?m sig (replicate ?T (Fin 0))" by blast
    have "\<forall>x\<in>set (estimated_curve1 r). length x = ?T"
      unfolding est using set_scatter[of ?m sig "replicate ?T (Fin 0)"] curve_signal_rows[OF sg]
      by auto
    moreover have "i < length (estimated_curve1 r)" unfolding est using i by simp
    ultimately have "concat (estimated_curve1 r) ! (i * ?T + t) = estimated_curve1 r ! i ! t"
      using t by (rule concat_uniform_nth)
    also have "estimated_curve1 r ! i = replicate ?T (Fin 0)"
      unfolding est using i out by (rule scatter_outside)
    finally show "elems (estimated1vol v) ! (i * ?T + t) = Fin 0" using V(6) t by simp
  qed
  from kt1 kt2 ve kep off vp cur show ?thesis by blast
qed

theorem outside_mask_zero_witness:
  "reconstruct (ex_process [True, False] 50 [Fin 1.5]) (ex_output [Fin 1.5]) = Inr ex_recon \<and>
   to_volumes (ex_process [True, False] 50 [Fin 1.5]) ex_recon = Inr ex_volumes \<and>
   \<not> flt (Fin 0.75) (Fin 0) \<and>
   \<not> p_roi1vec (ex_process [True, False] 50 [Fin 1.5]) ! 1 \<and>
   elems (Ktrans1vol ex_volumes) ! 1 = Fin 0 \<and> elems (ve1vol ex_volumes) ! 1 = Fin 0 \<and>
   elems (kep1vol ex_volumes) ! 1 = Fin 0 \<and> elems (offset1vol ex_volumes) ! 1 = Fin 0 \<and>
   elems (vp1vol ex_volumes) ! 1 = Fin 0 \<and>
   elems (estimated1vol ex_volumes) ! (1 * 3 + 2) = Fin 0"
proof -
  have p0: "\<not> flt (Fin 0.75) (Fin 0)" by simp
  have i: "1 < length (p_roi1vec (ex_process [True, False] 50 [Fin 1.5]))"
    by (simp add: ex_process_def)
  have out: "\<not> p_roi1vec (ex_process [True, False] 50 [Fin 1.5]) ! 1"
    by (simp add: ex_process_def)
  have T: "last (p_shape (ex_process [True, False] 50 [Fin 1.5])) = 3"
    by (simp add: ex_process_def)
  note W = outside_mask_zero[OF ex_reconstruct ex_to_volumes ex_ktrans_percentile i out]
  from W have "\<forall>t < 3. elems (estimated1vol ex_volumes) ! (1 * 3 + t) = Fin 0"
    unfolding T by blast
  then have "(2::nat) < 3 \<longrightarrow> elems (estimated1vol ex_volumes) ! (1 * 3 + 2) = Fin 0"
    by (rule spec)
  then have c: "elems (estimated1vol ex_volumes) ! (1 * 3 + 2) = Fin 0" by simp
  from W p0 have k: "elems (Ktrans1vol ex_volumes) ! 1 = Fin 0" by blast
  from W c k ex_reconstruct ex_to_volumes out p0 show ?thesis by blast
qed

text \<open>The claim as stated fails: with the mask \<open>[True, False]\<close>, the raw Ktrans \<open>- 1\<close> at
  the masked voxel and the percentile 0, the threshold is \<open>- 1\<close>, and the voxel outside
  the mask holds \<open>- 1\<close> in the published Ktrans volume.\<close>

theorem outside_mask_counterexample:
  "published (finished (ex_process [True, False] 0 [Fin (- 1)]) (ex_ivm [] [])) =
     [(''ktrans'', Some True, [Fin (- 1), Fin (- 1)]), (''ve'', None, [Fin (3 / 10), Fin 0]),
      (''kep'', None, [Fin 0, Fin 0]), (''offset'', None, [Fin (1 / 10), Fin 0]),
      (''vp'', None, [Fin (1 / 20), Fin 0]),
      (''model_curves'', None, [Fin 100, Fin 150, Fin 125, Fin 0, Fin 0, Fin 0])]"
  by (simp add: published_def ex_process_def ex_output_def ex_ivm_def finished_eval)

subsection \<open>C4: the chunks\<close>

text \<open>
  Claim C4 says that the calls of the engine's \<^verbatim>\<open>run\<close> cover all voxels. For 13
  voxels the chunk size is 3 and the number of calls is 4, so the calls cover 12 voxels:
  the engine is asked for the chunks 3, 3, 3, 3.
\<close>

theorem chunks_miss_a_voxel:
  "size_step 13 = 3 \<and> steps1 13 = 4 \<and> size_step 13 * steps1 13 < 13 \<and>
   run_steps ex_trace_engine (nat (steps1 13)) (size_step 13) ([], []) = Inr ([3, 3, 3, 3], [])"
proof -
  have a: "size_step 13 = 3" by (simp add: size_step_def np_around_def Let_def)
  have b: "steps1 13 = 4" by (simp add: steps1_def a np_around_def Let_def)
  have c: "run_steps ex_trace_engine (nat 4) 3 ([], []) = Inr ([3, 3, 3, 3], [])"
    by (simp add: ex_trace_engine_def eval_nat_numeral)
  show ?thesis using c by (simp add: a b)
qed

subsection \<open>C5: the kep formula\<close>

text \<open>
  Claim C5. At every voxel (so at every masked voxel) the kep value of lines 189 to 192
  is the specification's formula of the reconstructed, already clamped Ktrans and ve
  values: the quotient \<open>Ktrans / (ve + 0.001)\<close> with NaN and the infinities taken to 0, its
  maximum with 0, clamped to at most 2.
\<close>

theorem kep_formula:
  assumes "reconstruct self var1 = Inr r" and "i < length (p_roi1vec self)"
  shows "kep1 r ! i = kep_spec (Ktrans1 r ! i) (ve1 r ! i)"
proof -
  note R = reconstruct_InrD[OF assms(1)]
  have "length (Ktrans1 r) = length (p_roi1vec self)" using R(1) by simp
  moreover have "length (ve1 r) = length (p_roi1vec self)" using R(2) by simp
  ultimately have "kep1 r ! i = kep_of (Ktrans1 r ! i) (ve1 r ! i)"
    using R(3) assms(2) by simp
  then show ?thesis by (simp add: kep_of_spec)
qed

text \<open>The masked voxel of the example: \<open>1.5 / 0.301\<close> is above 2, so kep is 2.\<close>

theorem kep_formula_witness:
  "reconstruct (ex_process [True, False] 50 [Fin 1.5]) (ex_output [Fin 1.5]) = Inr ex_recon \<and>
   kep1 ex_recon ! 0 = kep_spec (Fin 1.5) (Fin 0.3) \<and> kep_spec (Fin 1.5) (Fin 0.3) = Fin 2"
proof -
  have i: "0 < length (p_roi1vec (ex_process [True, False] 50 [Fin 1.5]))"
    by (simp add: ex_process_def)
  from kep_formula[OF ex_reconstruct i]
  have "kep1 ex_recon ! 0 = kep_spec (Ktrans1 ex_recon ! 0) (ve1 ex_recon ! 0)" .
  moreover have "kep_spec (Fin 1.5) (Fin 0.3) = Fin 2" by (simp add: kep_spec_def Let_def)
  ultimately show ?thesis using ex_reconstruct by (simp add: ex_recon_def)
qed

subsection \<open>C6: the baseline\<close>

lemma py_int_one_plus: "- 1 \<le> x \<Longrightarrow> py_int (1 + x) = 1 + \<lfloor>x\<rfloor>"
  by (auto simp: py_int_def)

lemma baseline_of_take:
  "0 \<le> k \<Longrightarrow> baseline_of k vrows = map np_mean (map (take (nat k)) vrows)"
  by (simp add: baseline_of_def slice_to_def)

text \<open>
  Claim C6, as amended. Let \<open>k\<close> be the number that line 137 computes in double
  precision, \<^verbatim>\<open>int(1 + InjT / DelT)\<close>, and let it not be negative (it is at least 1 for
  every injection time that is not negative and every positive sampling interval, see
  \<open>baseline_tpts_ge_one\<close>). Then the baseline of \<^verbatim>\<open>run\<close> is, at every selected voxel, the
  mean of the first \<open>k\<close> time points, and a run on a second volume of the same shape that
  agrees with the first on the first \<open>k\<close> time points of every voxel has the same
  baseline. \<open>k\<close> is \<open>1 + \<lfloor>InjT / DelT\<rfloor>\<close> when the quotient and the sum are doubles, so that
  neither is rounded.
\<close>

theorem baseline_uses_leading_points:
  assumes r1: "run self s opts = Inr (p, n, a)"
    and r2: "run self (s\<lparr>main := Some v'\<rparr>) opts = Inr (p', n', a')"
    and v: "main s = Some v" and shp: "shape v' = shape v"
    and tinj: "o_tinj opts = Some InjT" and dt: "o_dt opts = Some DelT"
    and k: "baseline_tpts InjT DelT = Inr k" and k0: "0 \<le> k"
    and agree: "map (take (nat k)) (voxel_rows (last (shape v)) (elems v'))
              = map (take (nat k)) (voxel_rows (last (shape v)) (elems v))"
  shows "mask_select (p_roi1vec p)
           (map (\<lambda>row. np_mean (take (nat k) row))
              (voxel_rows (last (shape v)) (elems v))) = Inr (p_baseline p) \<and>
         p_baseline p' = p_baseline p \<and>
         (- 1 \<le> InjT / DelT \<and> round53 (InjT / DelT) = InjT / DelT \<and>
          round53 (1 + InjT / DelT) = 1 + InjT / DelT \<longrightarrow> k = 1 + \<lfloor>InjT / DelT\<rfloor>)"
proof -
  let ?roi = "case o_roi opts of
                None \<Rightarrow> Inr (current_roi s)
              | Some roi_name \<Rightarrow>
                  (case rois s roi_name of
                     Some r \<Rightarrow> Inr (Some r)
                   | None \<Rightarrow> Inl (QpException ''Specified ROI not found''))"
  have e: "current_roi (s\<lparr>main := Some v'\<rparr>) = current_roi s"
    "rois (s\<lparr>main := Some v'\<rparr>) = rois s" "main (s\<lparr>main := Some v'\<rparr>) = Some v'"
    by simp_all
  from run_InrD[OF r1] obtain img1 :: ndarray and roi tpts InjT1 DelT1 where
    i1: "main s = Some img1"
    and roi: "?roi = Inr roi"
    and o1: "o_tinj opts = Some InjT1" "o_dt opts = Some DelT1"
    and tp1: "baseline_tpts InjT1 DelT1 = Inr tpts"
    and m1: "p_roi1vec p = map (\<lambda>x. x \<noteq> Fin 0)
              (elems (case roi of
                        Some r \<Rightarrow> r
                      | None \<Rightarrow> \<lparr>shape = take 3 (shape img1),
                                 elems = replicate (prod_list (take 3 (shape img1))) (Fin 1)\<rparr>))"
    and b1: "mask_select (p_roi1vec p)
              (baseline_of tpts (voxel_rows (last (shape img1)) (elems img1))) = Inr (p_baseline p)"
    by blast
  from i1 v have iv: "img1 = v" by simp
  from o1 tinj dt have o1': "InjT1 = InjT" "DelT1 = DelT" by simp_all
  from tp1 k have t: "tpts = k" unfolding o1' by simp
  note m = m1[unfolded iv]
  note b = b1[unfolded iv t]
  from run_InrD[OF r2, unfolded e] obtain img2 :: ndarray and roi' tpts' InjT2 DelT2 where
    i2: "Some v' = Some img2"
    and roi': "?roi = Inr roi'"
    and o2: "o_tinj opts = Some InjT2" "o_dt opts = Some DelT2"
    and tp2: "baseline_tpts InjT2 DelT2 = Inr tpts'"
    and m2: "p_roi1vec p' = map (\<lambda>x. x \<noteq> Fin 0)
              (elems (case roi' of
                        Some r \<Rightarrow> r
                      | None \<Rightarrow> \<lparr>shape = take 3 (shape img2),
                                 elems = replicate (prod_list (take 3 (shape img2))) (Fin 1)\<rparr>))"
    and b2: "mask_select (p_roi1vec p')
              (baseline_of tpts' (voxel_rows (last (shape img2)) (elems img2))) = Inr (p_baseline p')"
    by blast
  from i2 have iv': "img2 = v'" by simp
  from o2 tinj dt have o2': "InjT2 = InjT" "DelT2 = DelT" by simp_all
  from tp2 k have t': "tpts' = k" unfolding o2' by simp
  note m' = m2[unfolded iv' shp]
  note b' = b2[unfolded iv' shp t']
  from roi roi' have "roi' = roi" by simp
  with m m' have mm: "p_roi1vec p' = p_roi1vec p" by simp
  have bo: "baseline_of k (voxel_rows (last (shape v)) (elems v))
          = map (\<lambda>row. np_mean (take (nat k) row)) (voxel_rows (last (shape v)) (elems v))"
    by (simp add: baseline_of_take[OF k0])
  have "baseline_of k (voxel_rows (last (shape v)) (elems v'))
          = map np_mean (map (take (nat k)) (voxel_rows (last (shape v)) (elems v')))"
    by (rule baseline_of_take[OF k0])
  also have "\<dots> = map np_mean (map (take (nat k)) (voxel_rows (last (shape v)) (elems v)))"
    by (simp only: agree)
  also have "\<dots> = baseline_of k (voxel_rows (last (shape v)) (elems v))"
    by (rule baseline_of_take[OF k0, symmetric])
  finally have "Inr (p_baseline p') = (Inr (p_baseline p) :: exn + fl list)"
    using b b' mm by simp
  then have same: "p_baseline p' = p_baseline p" by simp
  have exact: "- 1 \<le> InjT / DelT \<and> round53 (InjT / DelT) = InjT / DelT \<and>
          round53 (1 + InjT / DelT) = 1 + InjT / DelT \<longrightarrow> k = 1 + \<lfloor>InjT / DelT\<rfloor>"
  proof
    assume x: "- 1 \<le> InjT / DelT \<and> round53 (InjT / DelT) = InjT / DelT \<and>
          round53 (1 + InjT / DelT) = 1 + InjT / DelT"
    from k have "k = py_int (round53 (1 + round53 (InjT / DelT)))"
      by (auto simp: baseline_tpts_def Let_def split: if_splits)
    with x have "k = py_int (1 + InjT / DelT)" by simp
    with x show "k = 1 + \<lfloor>InjT / DelT\<rfloor>" by (simp add: py_int_one_plus)
  qed
  from b bo same exact show ?thesis by simp
qed

text \<open>Injection time 1 and sampling interval 1, so \<open>k = 2\<close>: the two volumes differ at
  the third time point of both voxels only.\<close>

theorem baseline_uses_leading_points_witness:
  "baseline_tpts 1 1 = Inr 2 \<and>
   map_sum id (p_baseline \<circ> fst)
     (run ex_self0 (ex_ivm [Fin 1, Fin 2, Fin 3, Fin 4, Fin 5, Fin 6] [Fin 1, Fin 1])
        (ex_options 1 1 None)) = Inr [Fin 1.5, Fin 4.5] \<and>
   map_sum id (p_baseline \<circ> fst)
     (run ex_self0 (ex_ivm [Fin 1, Fin 2, Fin 9, Fin 4, Fin 5, Fin 7] [Fin 1, Fin 1])
        (ex_options 1 1 None)) = Inr [Fin 1.5, Fin 4.5]"
proof -
  let ?s = "ex_ivm [Fin 1, Fin 2, Fin 3, Fin 4, Fin 5, Fin 6] [Fin 1, Fin 1]"
  let ?v = "\<lparr>shape = [1, 1, 2, 3], elems = [Fin 1, Fin 2, Fin 3, Fin 4, Fin 5, Fin 6]\<rparr>"
  let ?v' = "\<lparr>shape = [1, 1, 2, 3], elems = [Fin 1, Fin 2, Fin 9, Fin 4, Fin 5, Fin 7]\<rparr>"
  have s': "ex_ivm [Fin 1, Fin 2, Fin 9, Fin 4, Fin 5, Fin 7] [Fin 1, Fin 1]
              = ?s\<lparr>main := Some ?v'\<rparr>"
    by (simp add: ex_ivm_def)
  obtain p n a where r1: "run ex_self0 ?s (ex_options 1 1 None) = Inr (p, n, a)"
    and b1: "p_baseline p = [Fin 1.5, Fin 4.5]"
    by (simp add: ex_self0_def ex_ivm_def ex_options_def run_eval)
  obtain p' n' a' where
    r2: "run ex_self0 (?s\<lparr>main := Some ?v'\<rparr>) (ex_options 1 1 None) = Inr (p', n', a')"
    by (simp add: ex_self0_def ex_ivm_def ex_options_def run_eval)
  have v: "main ?s = Some ?v" by (simp add: ex_ivm_def)
  have shp: "shape ?v' = shape ?v" by simp
  have tinj: "o_tinj (ex_options 1 1 None) = Some 1" and dt: "o_dt (ex_options 1 1 None) = Some 1"
    by (simp_all add: ex_options_def)
  have k: "baseline_tpts 1 1 = Inr 2" by (rule baseline_tpts_values)
  have k0: "(0::int) \<le> 2" by simp
  have agree: "map (take (nat 2)) (voxel_rows (last (shape ?v)) (elems ?v'))
             = map (take (nat 2)) (voxel_rows (last (shape ?v)) (elems ?v))"
    by (simp add: voxel_rows_def upt_2)
  from baseline_uses_leading_points[OF r1 r2 v shp tinj dt k k0 agree]
  have "p_baseline p' = p_baseline p" by simp
  with r1 r2 b1 k show ?thesis unfolding s' by simp
qed

text \<open>
  The claim as stated fails for the injection time \<^verbatim>\<open>0.9999999999999999\<close> (the largest
  double below 1) and the sampling interval 1: \<open>1 + \<lfloor>InjT / DelT\<rfloor>\<close> is 1, but the sum
  \<^verbatim>\<open>1 + InjT / DelT\<close> is rounded to the double 2 and the code averages the first two
  time points. Two volumes that agree on the first time point and differ at the second
  have different baselines.
\<close>

theorem baseline_counterexample:
  "baseline_tpts ex_below_one 1 = Inr 2 \<and> 1 + \<lfloor>ex_below_one / 1\<rfloor> = 1 \<and>
   take 1 [Fin 1, Fin 2, Fin 3] = take 1 [Fin 1, Fin 5, Fin 3] \<and>
   map_sum id (p_baseline \<circ> fst)
     (run ex_self0 (ex_ivm [Fin 1, Fin 2, Fin 3, Fin 1, Fin 2, Fin 3] [Fin 1, Fin 1])
        (ex_options ex_below_one 1 None)) = Inr [Fin (3 / 2), Fin (3 / 2)] \<and>
   map_sum id (p_baseline \<circ> fst)
     (run ex_self0 (ex_ivm [Fin 1, Fin 5, Fin 3, Fin 1, Fin 5, Fin 3] [Fin 1, Fin 1])
        (ex_options ex_below_one 1 None)) = Inr [Fin 3, Fin 3]"
proof -
  have f: "\<lfloor>ex_below_one\<rfloor> = 0" by (simp add: ex_below_one_def)
  show ?thesis
    by (simp add: f ex_self0_def ex_ivm_def ex_options_def run_eval)
qed

subsection \<open>C7: the denominator of the normalisation\<close>

text \<open>
  Claim C7, as amended. The denominator \<open>baseline + 0.001\<close> of line 157 is not zero for
  every baseline other than \<open>- 0.001\<close>; in particular for every baseline that is not
  negative.
\<close>

theorem norm_denom_nonzero: "b \<noteq> Fin (- 0.001) \<Longrightarrow> norm_denom b \<noteq> Fin 0"
  by (cases b) (auto simp: norm_denom_def)

theorem norm_denom_nonzero_witness:
  "Fin 0 \<noteq> Fin (- 0.001) \<and> norm_denom (Fin 0) \<noteq> Fin 0"
  using norm_denom_nonzero[of "Fin 0"] by simp

text \<open>The claim as stated fails at the baseline \<open>- 0.001\<close>, which \<^verbatim>\<open>run\<close> computes for a
  voxel whose first time point is \<open>- 0.001\<close> (injection time 0, one baseline point).\<close>

theorem norm_denom_zero_counterexample:
  "norm_denom (Fin (- 0.001)) = Fin 0 \<and>
   map_sum id (p_baseline \<circ> fst)
     (run ex_self0 (ex_ivm [Fin (- 0.001), Fin 5, Fin 3, Fin 1, Fin 5, Fin 3] [Fin 1, Fin 1])
        (ex_options 0 2 None)) = Inr [Fin (- 0.001), Fin 1]"
  by (simp add: ex_self0_def ex_ivm_def ex_options_def run_eval)

subsection \<open>C8: exceptions of the engine\<close>

text \<open>
  Claim C8. The worker function always returns a triple that starts with its worker id,
  and never raises. When the engine has been set up and its \<^verbatim>\<open>run\<close> raises \<open>e\<close> in one of
  the calls of the loop (after \<open>j\<close> calls that returned), the worker function returns the
  worker id, the flag False and the exception \<open>e\<close>.
\<close>

theorem worker_returns_engine_error:
  "(\<exists>ok res. run_pk eng wid a = Inr (wid, ok, res)) \<and>
   (rows (img1sub a) \<noteq> [] \<longrightarrow>
    eng_new eng (map (\<lambda>i. Fin (real i * delt a / 60)) [0 ..< ncols (img1sub a)])
      (img1sub a) (t101sub a) = Inr pk0 \<longrightarrow>
    eng_set_bounds eng pk0 [10, 1, 0.5, 0.5] [0, 0.05, - 0.5, 0] = Inr pk1 \<longrightarrow>
    eng_set_parameters eng pk1 (r1 a) (r2 a) (dce_flip_angle a) (tr1 a / 1000) (te1 a / 1000)
      (dose a) = Inr pk2 \<longrightarrow>
    eng_rinit eng pk2 (model_choice a) (injt a / 60) = Inr st \<longrightarrow>
    run_steps eng j (size_step (length (rows (img1sub a)))) st = Inr (pk, lg) \<longrightarrow>
    j < nat (steps1 (length (rows (img1sub a)))) \<longrightarrow>
    eng_run eng pk (size_step (length (rows (img1sub a)))) = Inl e \<longrightarrow>
    run_pk eng wid a = Inr (wid, False, Failure e))"
proof (intro conjI impI)
  show "\<exists>ok res. run_pk eng wid a = Inr (wid, ok, res)" by (rule run_pk_total)
next
  assume ne: "rows (img1sub a) \<noteq> []"
    and new: "eng_new eng (map (\<lambda>i. Fin (real i * delt a / 60)) [0 ..< ncols (img1sub a)])
      (img1sub a) (t101sub a) = Inr pk0"
    and sb: "eng_set_bounds eng pk0 [10, 1, 0.5, 0.5] [0, 0.05, - 0.5, 0] = Inr pk1"
    and sp: "eng_set_parameters eng pk1 (r1 a) (r2 a) (dce_flip_angle a) (tr1 a / 1000)
      (te1 a / 1000) (dose a) = Inr pk2"
    and ri: "eng_rinit eng pk2 (model_choice a) (injt a / 60) = Inr st"
    and steps: "run_steps eng j (size_step (length (rows (img1sub a)))) st = Inr (pk, lg)"
    and j: "j < nat (steps1 (length (rows (img1sub a))))"
    and raise: "eng_run eng pk (size_step (length (rows (img1sub a)))) = Inl e"
  have "run_steps eng (nat (steps1 (length (rows (img1sub a)))))
          (size_step (length (rows (img1sub a)))) st = Inl e"
    by (rule run_steps_raise[OF steps raise j])
  with ne new sb sp ri have "run_pk_body eng a = Inl e"
    by (simp add: run_pk_body_def Let_def)
  then show "run_pk eng wid a = Inr (wid, False, Failure e)" by (rule run_pk_failure)
qed

text \<open>Five voxels, so five chunks of one voxel; the engine raises in the second.\<close>

theorem worker_returns_engine_error_witness:
  "rows (img1sub (ex_args 5)) \<noteq> [] \<and>
   steps1 (length (rows (img1sub (ex_args 5)))) = 5 \<and>
   run_steps ex_engine (Suc 0) (size_step (length (rows (img1sub (ex_args 5))))) (0, ''init;'')
     = Inr (1, ''init;run;'') \<and>
   eng_run ex_engine 1 (size_step (length (rows (img1sub (ex_args 5)))))
     = Inl (Raised ''fit failed'') \<and>
   run_pk ex_engine 0 (ex_args 5) = Inr (0, False, Failure (Raised ''fit failed''))"
proof -
  have a: "rows (img1sub (ex_args 5)) \<noteq> []" by (simp add: ex_args_def)
  have n: "length (rows (img1sub (ex_args 5))) = 5" by (simp add: ex_args_def)
  have s: "run_steps ex_engine (Suc 0) (size_step (length (rows (img1sub (ex_args 5)))))
             (0, ''init;'') = Inr (1, ''init;run;'')"
    by (simp add: ex_engine_def)
  have r: "eng_run ex_engine 1 (size_step (length (rows (img1sub (ex_args 5)))))
             = Inl (Raised ''fit failed'')"
    by (simp add: ex_engine_def)
  have j: "Suc 0 < nat (steps1 (length (rows (img1sub (ex_args 5)))))"
    by (simp add: n steps1_5)
  from worker_returns_engine_error
         [of ex_engine 0 "ex_args 5" 0 0 0 "(0, ''init;'')" "Suc 0" 1 "''init;run;''"
             "Raised ''fit failed''"]
    a s r j
  have "run_pk ex_engine 0 (ex_args 5) = Inr (0, False, Failure (Raised ''fit failed''))"
    by (simp add: ex_engine_def)
  with a s r show ?thesis by (simp add: n steps1_5)
qed

subsection \<open>C9: what the percentile is taken over\<close>

text \<open>
  Claim C9. The arrays that the thresholds are computed from have one element per voxel
  of the volume, the voxels outside the mask with the value 0, and each threshold is the
  percentile of the whole array. In the example (mask \<open>[True, False]\<close>, Ktrans 1.5 at the
  masked voxel, percentile 50) the percentile of the volume is 0.75, where the percentile
  of the masked values alone is 1.5.
\<close>

theorem percentile_over_full_volume:
  assumes rec: "reconstruct self var1 = Inr r" and vol: "to_volumes self r = Inr v"
  shows "length (Ktrans1 r) = length (p_roi1vec self) \<and>
         length (kep1 r) = length (p_roi1vec self) \<and>
         (\<forall>i < length (p_roi1vec self). \<not> p_roi1vec self ! i \<longrightarrow>
            Ktrans1 r ! i = Fin 0 \<and> kep1 r ! i = Fin 0) \<and>
         (\<exists>p. np_percentile (Ktrans1 r) (p_thresh1val self) = Inr p \<and>
              elems (Ktrans1vol v) = threshold_above p (Ktrans1 r)) \<and>
         (\<exists>p. np_percentile (kep1 r) (p_thresh1val self) = Inr p \<and>
              elems (kep1vol v) = threshold_above p (kep1 r)) \<and>
         np_percentile (Ktrans1 ex_recon) 50 = Inr (Fin 0.75) \<and>
         mask_select [True, False] (Ktrans1 ex_recon) = Inr [Fin 1.5] \<and>
         np_percentile [Fin 1.5] 50 = Inr (Fin 1.5)"
proof -
  let ?m = "p_roi1vec self"
  note R = reconstruct_InrD[OF rec]
  note V = to_volumes_InrD[OF vol]
  have lk: "length (Ktrans1 r) = length ?m" using R(1) by simp
  have lv: "length (ve1 r) = length ?m" using R(2) by simp
  have lke: "length (kep1 r) = length ?m" using R(3) lk lv by simp
  have z: "\<forall>i < length ?m. \<not> ?m ! i \<longrightarrow> Ktrans1 r ! i = Fin 0 \<and> kep1 r ! i = Fin 0"
  proof (intro allI impI)
    fix i assume i: "i < length ?m" and out: "\<not> ?m ! i"
    have k0: "Ktrans1 r ! i = Fin 0" using R(1) i out by (simp add: scatter_outside)
    have v0: "ve1 r ! i = Fin 0"
      using R(2) i out by (simp add: scatter_outside zero_neg_def b2f_def)
    have "kep1 r ! i = Fin 0"
      using R(3) i lk lv k0 v0 kep_of_zero by (simp add: zero_neg_def b2f_def)
    with k0 show "Ktrans1 r ! i = Fin 0 \<and> kep1 r ! i = Fin 0" by simp
  qed
  have c1: "np_percentile (Ktrans1 ex_recon) 50 = Inr (Fin 0.75)"
    by (simp add: ex_recon_def np_percentile_def fl_sort_def Let_def)
  have c2: "mask_select [True, False] (Ktrans1 ex_recon) = Inr [Fin 1.5]"
    by (simp add: ex_recon_def mask_select_def)
  have c3: "np_percentile [Fin 1.5] 50 = Inr (Fin 1.5)"
    by (simp add: np_percentile_def fl_sort_def Let_def)
  from lk lke z V(1) V(2) c1 c2 c3 show ?thesis by blast
qed

theorem percentile_over_full_volume_witness:
  "reconstruct (ex_process [True, False] 50 [Fin 1.5]) (ex_output [Fin 1.5]) = Inr ex_recon \<and>
   to_volumes (ex_process [True, False] 50 [Fin 1.5]) ex_recon = Inr ex_volumes \<and>
   length (Ktrans1 ex_recon) = 2 \<and>
   elems (Ktrans1vol ex_volumes) = threshold_above (Fin 0.75) (Ktrans1 ex_recon) \<and>
   elems (Ktrans1vol ex_volumes) = [Fin 0.75, Fin 0]"
proof -
  note W = percentile_over_full_volume[OF ex_reconstruct ex_to_volumes]
  have l: "length (p_roi1vec (ex_process [True, False] 50 [Fin 1.5])) = 2"
    by (simp add: ex_process_def)
  from W l have a: "length (Ktrans1 ex_recon) = 2" by simp
  from W obtain p where
    p: "np_percentile (Ktrans1 ex_recon) (p_thresh1val (ex_process [True, False] 50 [Fin 1.5]))
          = Inr p"
    and e: "elems (Ktrans1vol ex_volumes) = threshold_above p (Ktrans1 ex_recon)"
    by blast
  from p ex_ktrans_percentile have "p = Fin 0.75" by simp
  with e have b: "elems (Ktrans1vol ex_volumes) = threshold_above (Fin 0.75) (Ktrans1 ex_recon)"
    by simp
  have c: "elems (Ktrans1vol ex_volumes) = [Fin 0.75, Fin 0]" by (simp add: ex_volumes_def)
  from a b c ex_reconstruct ex_to_volumes show ?thesis by blast
qed

subsection \<open>C10: the published outputs\<close>

text \<open>
  Claim C10. After a \<^verbatim>\<open>run\<close> with the options \<open>opts\<close>, a \<^verbatim>\<open>finished\<close> on the succeeded
  process that returns has made exactly six calls of \<^verbatim>\<open>add_data\<close>, after those the store
  already held: ktrans, ve, kep, offset, vp and model_curves in this order, each name
  followed by an underscore and the suffix option when that is present and not empty; ktrans
  with \<open>make_current = True\<close>, the others without the argument.
\<close>

theorem six_named_outputs:
  assumes r: "run self0 s0 opts = Inr (self1, n, a)"
    and f: "finished (self1\<lparr>p_status := SUCCEEDED, p_output := outs\<rparr>) s = Inr (self', s')"
  shows "map (\<lambda>c. (ac_name c, ac_make_current c)) (added s') =
         map (\<lambda>c. (ac_name c, ac_make_current c)) (added s) @
         (let sfx = (case o_suffix opts of
                       None \<Rightarrow> []
                     | Some x \<Rightarrow> if x = [] then [] else ''_'' @ x)
          in [(''ktrans'' @ sfx, Some True), (''ve'' @ sfx, None), (''kep'' @ sfx, None),
              (''offset'' @ sfx, None), (''vp'' @ sfx, None),
              (''model_curves'' @ sfx, None)])"
proof -
  let ?self = "self1\<lparr>p_status := SUCCEEDED, p_output := outs\<rparr>"
  from run_InrD[OF r] have
    "p_suffix self1 =
       (case o_suffix opts of None \<Rightarrow> [] | Some x \<Rightarrow> if x \<noteq> [] then ''_'' @ x else x)"
    by blast
  then have sfx: "p_suffix ?self =
      (case o_suffix opts of None \<Rightarrow> [] | Some x \<Rightarrow> if x = [] then [] else ''_'' @ x)"
    by (simp split: option.split)
  have st: "p_status ?self = SUCCEEDED" by simp
  from finished_InrD[OF st f] obtain v where "s' = publish ?self v s" by blast
  then show ?thesis
    unfolding sfx[symmetric] by (simp add: publish_def add_data_def Let_def)
qed

theorem six_named_outputs_witness:
  "map_sum id (p_suffix \<circ> fst)
     (run ex_self0 (ex_ivm [Fin 1, Fin 2, Fin 3, Fin 4, Fin 5, Fin 6] [Fin 1, Fin 0])
        (ex_options 1 1 (Some ''a''))) = Inr ''_a'' \<and>
   map (\<lambda>(nm, mc, xs). (nm, mc))
     (published
        (finished (ex_run_process\<lparr>p_status := SUCCEEDED, p_output := [ex_output [Fin 1.5]]\<rparr>)
           (ex_ivm [] []))) =
     [(''ktrans_a'', Some True), (''ve_a'', None), (''kep_a'', None), (''offset_a'', None),
      (''vp_a'', None), (''model_curves_a'', None)]"
proof -
  obtain n a where
    r: "run ex_self0 (ex_ivm [Fin 1, Fin 2, Fin 3, Fin 4, Fin 5, Fin 6] [Fin 1, Fin 0])
          (ex_options 1 1 (Some ''a'')) = Inr (ex_run_process, n, a)"
    by (simp add: ex_self0_def ex_ivm_def ex_options_def ex_run_process_def run_eval
        show_int_digit)
  obtain self' s' where
    f: "finished (ex_run_process\<lparr>p_status := SUCCEEDED, p_output := [ex_output [Fin 1.5]]\<rparr>)
          (ex_ivm [] []) = Inr (self', s')"
    by (simp add: ex_run_process_def ex_output_def ex_ivm_def finished_eval)
  have e: "added (ex_ivm [] []) = []" by (simp add: ex_ivm_def)
  have o: "o_suffix (ex_options 1 1 (Some ''a'')) = Some ''a''" by (simp add: ex_options_def)
  from six_named_outputs[OF r f]
  have "map (\<lambda>c. (ac_name c, ac_make_current c)) (added s') =
     [(''ktrans_a'', Some True), (''ve_a'', None), (''kep_a'', None), (''offset_a'', None),
      (''vp_a'', None), (''model_curves_a'', None)]"
    by (simp add: e o Let_def)
  then show ?thesis using r f
    by (simp add: published_def comp_def case_prod_beta ex_run_process_def)
qed

end
